theory Spec2Isabelle
  imports Complex_Main "HOL-Library.Sublist"
begin

section \<open>Python strings\<close>

text \<open>
  A Python \<open>str\<close> is modelled as a \<open>string\<close> whose characters are the code points
  U+0000 .. U+00FF (Latin-1), so that \<open>length\<close> counts code points as \<open>len\<close> does and the
  accented letters of Spanish (\<open>CHR 0xF1\<close> is n-tilde, \<open>CHR 0xED\<close> is i-acute) are single
  characters. The functions below are the methods of \<open>str\<close> and the regular expressions
  that \<open>automatizacion/utils/validators.py\<close> uses, restricted to that range.
\<close>

definition code_point :: "char \<Rightarrow> nat" where
  "code_point c = of_char c"

text \<open>\<open>str.isspace\<close>: tab .. carriage return, the separators 0x1C .. 0x1F, space, NEL, NBSP.\<close>

definition py_isspace :: "char \<Rightarrow> bool" where
  "py_isspace c = (let n = code_point c in
     (9 \<le> n \<and> n \<le> 13) \<or> (28 \<le> n \<and> n \<le> 32) \<or> n = 133 \<or> n = 160)"

definition ascii_digit :: "char \<Rightarrow> bool" where
  "ascii_digit c = (let n = code_point c in 48 \<le> n \<and> n \<le> 57)"

text \<open>\<open>str.isdigit\<close> also accepts the superscript digits of Latin-1.\<close>

definition py_isdigit :: "char \<Rightarrow> bool" where
  "py_isdigit c = (ascii_digit c \<or> code_point c \<in> {178, 179, 185})"

definition ascii_lower_letter :: "char \<Rightarrow> bool" where
  "ascii_lower_letter c = (let n = code_point c in 97 \<le> n \<and> n \<le> 122)"

text \<open>\<open>str.lower\<close>: A-Z and the upper-case letters 0xC0 .. 0xDE (without the sign 0xD7).\<close>

definition py_lower_char :: "char \<Rightarrow> char" where
  "py_lower_char c = (let n = code_point c in
     if (65 \<le> n \<and> n \<le> 90) \<or> (192 \<le> n \<and> n \<le> 222 \<and> n \<noteq> 215)
     then char_of (n + 32) else c)"

definition py_lower :: "string \<Rightarrow> string" where
  "py_lower s = map py_lower_char s"

text \<open>
  \<open>str.upper\<close>: a-z and 0xE0 .. 0xFE (without the sign 0xF7); sharp s becomes \<open>SS\<close>. The
  upper-case forms of y-diaeresis (0xFF) and the micro sign (0xB5) lie outside Latin-1;
  they are left as they are, which no comparison with an ASCII keyword can observe.
\<close>

definition py_upper_char :: "char \<Rightarrow> string" where
  "py_upper_char c = (let n = code_point c in
     if n = 223 then ''SS''
     else if (97 \<le> n \<and> n \<le> 122) \<or> (224 \<le> n \<and> n \<le> 254 \<and> n \<noteq> 247)
     then [char_of (n - 32)] else [c])"

definition py_upper :: "string \<Rightarrow> string" where
  "py_upper s = concat (map py_upper_char s)"

definition py_strip :: "string \<Rightarrow> string" where
  "py_strip s = rev (dropWhile py_isspace (rev (dropWhile py_isspace s)))"

text \<open>\<open>s.replace(a, b)\<close> for a single character \<open>a\<close>.\<close>

definition replace_char :: "char \<Rightarrow> char \<Rightarrow> string \<Rightarrow> string" where
  "replace_char a b s = map (\<lambda>c. if c = a then b else c) s"

text \<open>\<open>t in s\<close> for strings: \<open>t\<close> occurs in \<open>s\<close> as a contiguous substring.\<close>

fun py_contains :: "string \<Rightarrow> string \<Rightarrow> bool" where
  "py_contains t [] = (t = [])"
| "py_contains t (c # cs) = (prefix t (c # cs) \<or> py_contains t cs)"

text \<open>\<open>str(n)\<close> and \<open>int(s)\<close> for a non-negative integer and a string of ASCII digits.\<close>

definition digit_char :: "nat \<Rightarrow> char" where
  "digit_char d = char_of (48 + d)"

fun str_nat :: "nat \<Rightarrow> string" where
  "str_nat n = (if n < 10 then [digit_char n] else str_nat (n div 10) @ [digit_char (n mod 10)])"

declare str_nat.simps [simp del]

definition digit_val :: "char \<Rightarrow> nat" where
  "digit_val c = code_point c - 48"

definition int_of_digits :: "string \<Rightarrow> nat" where
  "int_of_digits ds = foldl (\<lambda>a c. 10 * a + digit_val c) 0 ds"

section \<open>NameNormalizer: \<open>normalize_name\<close>\<close>

text \<open>\<open>re.sub(r'[^a-z0-9_\-]', '', s)\<close>: keep lower-case ASCII letters, digits, \<open>_\<close> and \<open>-\<close>.\<close>

definition name_char :: "char \<Rightarrow> bool" where
  "name_char c = (ascii_lower_letter c \<or> ascii_digit c \<or> c = CHR ''_'' \<or> c = CHR ''-'')"

definition strip_special :: "string \<Rightarrow> string" where
  "strip_special s = filter name_char s"

text \<open>\<open>re.sub(r'[_\-]+', '_', s)\<close>: every maximal run of \<open>_\<close> and \<open>-\<close> becomes one \<open>_\<close>.\<close>

definition sep_char :: "char \<Rightarrow> bool" where
  "sep_char c = (c = CHR ''_'' \<or> c = CHR ''-'')"

function collapse_seps :: "string \<Rightarrow> string" where
  "collapse_seps [] = []"
| "collapse_seps (c # cs) =
     (if sep_char c then CHR ''_'' # collapse_seps (dropWhile sep_char cs)
      else c # collapse_seps cs)"
  by pat_completeness auto
termination
  by (relation "measure length") (auto simp: le_imp_less_Suc length_dropWhile_le)

text \<open>
  \<open>re.search(r'_(\d+)$', s)\<close>: the match is the underscore before the longest suffix of
  digits, when that suffix is not empty and an underscore precedes it. The result is
  \<open>s[:match.start()]\<close> and \<open>int(match.group(1))\<close>.
\<close>

definition numeric_suffix :: "string \<Rightarrow> (string \<times> nat) option" where
  "numeric_suffix s =
     (let ds = rev (takeWhile ascii_digit (rev s));
          front = rev (dropWhile ascii_digit (rev s))
      in if ds \<noteq> [] \<and> front \<noteq> [] \<and> last front = CHR ''_''
         then Some (butlast front, int_of_digits ds) else None)"

definition suffixed :: "string \<Rightarrow> nat \<Rightarrow> string" where
  "suffixed base_name counter = base_name @ ''_'' @ str_nat counter"

text \<open>The steps 1 to 7 of \<open>normalize_name\<close>, before the search for a free suffix.\<close>

definition clean_name :: "string \<Rightarrow> string" where
  "clean_name name =
     (let name1 = (if name = [] then ''sin_nombre'' else name);
          n1 = py_strip (py_lower name1);
          n2 = replace_char CHR '' '' CHR ''_'' n1;
          n3 = strip_special n2;
          n4 = collapse_seps n3;
          n5 = (if n4 \<noteq> [] \<and> py_isdigit (hd n4) then ''tabla_'' @ n4 else n4);
          n6 = (if n5 = [] then ''sin_nombre'' else n5)
      in take 128 n6)"

text \<open>
  The search for a free suffix: \<open>while f"{base_name}_{counter}" in existing_lower:
  counter += 1\<close>. It ends because a name in the list bounds the number of digits of
  the counter.
\<close>

definition max_len :: "string list \<Rightarrow> nat" where
  "max_len xs = foldr (\<lambda>x m. max (length x) m) xs 0"

function next_free :: "string \<Rightarrow> string list \<Rightarrow> nat \<Rightarrow> nat" where
  "next_free base_name existing_lower counter =
     (if suffixed base_name counter \<in> set existing_lower
      then next_free base_name existing_lower (counter + 1) else counter)"
  by pat_completeness auto
termination
proof (relation "measure (\<lambda>(b, ex, c). 10 ^ max_len ex - c)")
  show "wf (measure (\<lambda>(b :: string, ex, c :: nat). 10 ^ max_len ex - c))"
    by simp
next
  fix base_name :: string and existing_lower :: "string list" and counter :: nat
  assume mem: "suffixed base_name counter \<in> set existing_lower"
  have digits: "n < 10 ^ length (str_nat n)" for n :: nat
  proof (induction n rule: str_nat.induct)
    case (1 n)
    show ?case
    proof (cases "n < 10")
      case True
      then show ?thesis by (simp add: str_nat.simps [of n])
    next
      case False
      with 1 have "n div 10 < 10 ^ length (str_nat (n div 10))" by simp
      then have "n < 10 * 10 ^ length (str_nat (n div 10))" by simp
      with False show ?thesis by (simp add: str_nat.simps [of n])
    qed
  qed
  have longest: "length x \<le> max_len xs" if "x \<in> set xs" for x xs
    using that by (induction xs) (auto simp: max_len_def)
  have "length (str_nat counter) \<le> length (suffixed base_name counter)"
    by (simp add: suffixed_def)
  also have "\<dots> \<le> max_len existing_lower"
    using mem by (rule longest)
  finally have "(10::nat) ^ length (str_nat counter) \<le> 10 ^ max_len existing_lower"
    by (simp add: power_increasing)
  with digits [of counter] have "counter < 10 ^ max_len existing_lower"
    by linarith
  then show "((base_name, existing_lower, counter + 1), (base_name, existing_lower, counter))
      \<in> measure (\<lambda>(b, ex, c). 10 ^ max_len ex - c)"
    by simp
qed

declare next_free.simps [simp del]

text \<open>
  Step 8 of \<open>normalize_name\<close>: where the search starts. A name that already ends in
  \<open>_<digits>\<close> continues from that number.
\<close>

definition suffix_start :: "string \<Rightarrow> string \<times> nat" where
  "suffix_start normalized =
     (case numeric_suffix normalized of
        Some (base_name, k) \<Rightarrow> (base_name, k + 1)
      | None \<Rightarrow> (normalized, 1))"

text \<open>
  \<open>normalize_name(name, existing_names)\<close>. The argument \<open>existing_names\<close> is a list;
  \<open>None\<close> and the empty list behave alike (\<open>if existing_names:\<close>).
\<close>

definition normalize_name :: "string \<Rightarrow> string list \<Rightarrow> string" where
  "normalize_name name existing_names =
     (let normalized = clean_name name in
      if existing_names \<noteq> [] then
        (let existing_lower = map py_lower existing_names in
         if normalized \<in> set existing_lower then
           (let (base_name, counter) = suffix_start normalized
            in suffixed base_name (next_free base_name existing_lower counter))
         else normalized)
      else normalized)"

section \<open>Python values\<close>

text \<open>
  A raw cell value is dynamically typed; the closed variant below covers what a cell of a
  pandas frame holds. \<open>PTimestamp\<close> carries nanoseconds since the epoch and stands for
  \<open>pd.Timestamp\<close> and \<open>datetime\<close> alike; \<open>PNaT\<close> is \<open>pd.NaT\<close>.

  A finite float is kept as the exact rational it denotes: rounding to binary64 is not
  modelled, overflow to infinity is. The non-finite floats are values of their own,
  since \<open>float('nan')\<close> and \<open>float('inf')\<close> parse.
\<close>

datatype pyexn = ValueError | TypeError | OverflowError | AttributeError | DatabaseError

datatype pyfloat = Finite rat | PosInf | NegInf | NaN

datatype pyval =
    PNone
  | PBool bool
  | PInt int
  | PFloat pyfloat
  | PStr string
  | PTimestamp int
  | PNaT

text \<open>
  What the code takes from pandas and the clock. \<open>to_datetime\<close> is
  \<open>pd.to_datetime(value)\<close> on a string (it raises, or returns a timestamp or \<open>NaT\<close>);
  \<open>to_numeric_coerce\<close> and \<open>to_datetime_coerce\<close> are the element-wise results of
  \<open>pd.to_numeric(..., errors='coerce')\<close> and \<open>pd.to_datetime(..., errors='coerce')\<close>,
  with \<open>NaN\<close> and \<open>NaT\<close> for a value that does not coerce; \<open>sample_n\<close> is
  \<open>Series.sample(n, random_state=42)\<close>; \<open>repr_float\<close> and \<open>repr_timestamp\<close> are
  \<open>str\<close> on a float and on a timestamp.
\<close>

record py_env =
  timestamp_now :: int
  to_datetime :: "string \<Rightarrow> pyexn + pyval"
  to_numeric_coerce :: "pyval \<Rightarrow> pyfloat"
  to_datetime_coerce :: "pyval \<Rightarrow> pyval"
  sample_n :: "nat \<Rightarrow> pyval list \<Rightarrow> pyval list"
  repr_float :: "pyfloat \<Rightarrow> string"
  repr_timestamp :: "int \<Rightarrow> string"

text \<open>\<open>pd.isna\<close> on a scalar.\<close>

fun isna :: "pyval \<Rightarrow> bool" where
  "isna PNone = True"
| "isna (PFloat NaN) = True"
| "isna PNaT = True"
| "isna _ = False"

fun isstr :: "pyval \<Rightarrow> bool" where
  "isstr (PStr _) = True"
| "isstr _ = False"

definition str_int :: "int \<Rightarrow> string" where
  "str_int i = (if i < 0 then CHR ''-'' # str_nat (nat (- i)) else str_nat (nat i))"

text \<open>\<open>str(value)\<close>.\<close>

fun py_str :: "py_env \<Rightarrow> pyval \<Rightarrow> string" where
  "py_str env PNone = ''None''"
| "py_str env (PBool b) = (if b then ''True'' else ''False'')"
| "py_str env (PInt i) = str_int i"
| "py_str env (PFloat f) = repr_float env f"
| "py_str env (PStr s) = s"
| "py_str env (PTimestamp t) = repr_timestamp env t"
| "py_str env PNaT = ''NaT''"

subsection \<open>\<open>float(value)\<close> and \<open>int(x)\<close>\<close>

text \<open>
  The grammar of \<open>float\<close> on a string, after stripping white space:
  \<open>[sign] (inf | infinity | nan)\<close> in any case, or \<open>[sign] number\<close> where a number is
  \<open>digitpart [. [digitpart]] [exponent]\<close> or \<open>. digitpart [exponent]\<close>, a digitpart is
  digits with single underscores between them, and an exponent is \<open>e [sign] digitpart\<close>.
\<close>

fun digitpart :: "string \<Rightarrow> bool" where
  "digitpart [] = False"
| "digitpart [c] = ascii_digit c"
| "digitpart (c # d # cs) =
     (ascii_digit c \<and> (if d = CHR ''_'' then digitpart cs else digitpart (d # cs)))"

definition digits_value :: "string \<Rightarrow> nat" where
  "digits_value s = int_of_digits (filter ascii_digit s)"

definition split_sign :: "string \<Rightarrow> bool \<times> string" where
  "split_sign s =
     (case s of
        [] \<Rightarrow> (False, [])
      | c # cs \<Rightarrow> if c = CHR ''-'' then (True, cs)
                  else if c = CHR ''+'' then (False, cs) else (False, s))"

definition not_exp_mark :: "char \<Rightarrow> bool" where
  "not_exp_mark c = (c \<noteq> CHR ''e'' \<and> c \<noteq> CHR ''E'')"

definition not_point :: "char \<Rightarrow> bool" where
  "not_point c = (c \<noteq> CHR ''.'')"

definition scale10 :: "rat \<Rightarrow> bool \<Rightarrow> nat \<Rightarrow> rat" where
  "scale10 m neg_exp e = (if neg_exp then m / 10 ^ e else m * 10 ^ e)"

definition parse_decimal :: "string \<Rightarrow> rat option" where
  "parse_decimal s =
     (let mant = takeWhile not_exp_mark s;
          expo = dropWhile not_exp_mark s;
          ip = takeWhile not_point mant;
          pt = dropWhile not_point mant;
          fp = tl pt;
          mant_ok = (if pt = [] then digitpart ip
                     else (ip = [] \<or> digitpart ip) \<and> (fp = [] \<or> digitpart fp)
                          \<and> \<not> (ip = [] \<and> fp = []));
          (neg_exp, ex) = split_sign (tl expo);
          expo_ok = (expo = [] \<or> digitpart ex);
          m = of_nat (digits_value ip)
              + of_nat (digits_value fp) / 10 ^ length (filter ascii_digit fp)
      in if mant_ok \<and> expo_ok then Some (scale10 m neg_exp (digits_value ex)) else None)"

text \<open>
  The largest finite binary64 is \<open>2^1024 - 2^971\<close>; a value of magnitude
  \<open>2^1024 - 2^970\<close> or more rounds to infinity.
\<close>

definition float_overflow :: rat where
  "float_overflow = 2 ^ 1024 - 2 ^ 970"

definition round_float :: "rat \<Rightarrow> pyfloat" where
  "round_float r =
     (if float_overflow \<le> r then PosInf
      else if r \<le> - float_overflow then NegInf else Finite r)"

definition py_float_str :: "string \<Rightarrow> pyexn + pyfloat" where
  "py_float_str s =
     (let (neg, body) = split_sign (py_strip s); low = py_lower body in
      if low = ''inf'' \<or> low = ''infinity'' then Inr (if neg then NegInf else PosInf)
      else if low = ''nan'' then Inr NaN
      else (case parse_decimal body of
              None \<Rightarrow> Inl ValueError
            | Some r \<Rightarrow> Inr (round_float (if neg then - r else r))))"

fun py_float :: "pyval \<Rightarrow> pyexn + pyfloat" where
  "py_float (PStr s) = py_float_str s"
| "py_float (PInt i) =
     (if float_overflow \<le> \<bar>of_int i\<bar> then Inl OverflowError else Inr (Finite (of_int i)))"
| "py_float (PBool b) = Inr (Finite (if b then 1 else 0))"
| "py_float (PFloat f) = Inr f"
| "py_float _ = Inl TypeError"

text \<open>\<open>int(x)\<close> on a float truncates towards zero and raises on the non-finite ones.\<close>

fun py_int_of_float :: "pyfloat \<Rightarrow> pyexn + int" where
  "py_int_of_float (Finite r) = Inr (if 0 \<le> r then \<lfloor>r\<rfloor> else \<lceil>r\<rceil>)"
| "py_int_of_float NaN = Inl ValueError"
| "py_int_of_float _ = Inl OverflowError"

section \<open>ValueNormalizer: \<open>normalize_value_by_type\<close>\<close>

text \<open>\<open>any(t in upper_type for t in [...])\<close>.\<close>

definition any_in :: "string list \<Rightarrow> string \<Rightarrow> bool" where
  "any_in keywords s = list_ex (\<lambda>t. py_contains t s) keywords"

definition int_types :: "string list" where
  "int_types = [''INT'', ''BIGINT'', ''SMALLINT'', ''TINYINT'']"

definition float_types :: "string list" where
  "float_types = [''FLOAT'', ''DECIMAL'', ''NUMERIC'', ''MONEY'', ''REAL'']"

definition date_types :: "string list" where
  "date_types = [''DATE'', ''DATETIME'', ''TIME'', ''TIMESTAMP'']"

definition sql_date_functions :: "string list" where
  "sql_date_functions = [''GETDATE()'', ''NOW()'', ''CURRENT_TIMESTAMP'']"

text \<open>\<open>isinstance(v, str) and v.upper() in ['GETDATE()', 'NOW()', 'CURRENT_TIMESTAMP']\<close>.\<close>

fun is_sql_date_function :: "pyval \<Rightarrow> bool" where
  "is_sql_date_function (PStr s) = (py_upper s \<in> set sql_date_functions)"
| "is_sql_date_function _ = False"

text \<open>
  \<open>is_empty = pd.isna(value) or value == '' or (isinstance(value, str) and not
  value.strip())\<close>.
\<close>

fun is_empty :: "pyval \<Rightarrow> bool" where
  "is_empty (PStr s) = (s = [] \<or> py_strip s = [])"
| "is_empty v = isna v"

text \<open>\<open>value.strip()\<close> when the value is a string.\<close>

fun strip_if_str :: "pyval \<Rightarrow> pyval" where
  "strip_if_str (PStr s) = PStr (py_strip s)"
| "strip_if_str v = v"

text \<open>\<open>except (ValueError, TypeError)\<close>: any other exception leaves the function.\<close>

fun caught :: "pyexn \<Rightarrow> bool" where
  "caught ValueError = True"
| "caught TypeError = True"
| "caught _ = False"

text \<open>
  \<open>re.search(r'\((\d+)\)', sql_type)\<close>: the first parenthesis that holds digits only,
  as a number.
\<close>

fun find_paren_number :: "string \<Rightarrow> nat option" where
  "find_paren_number [] = None"
| "find_paren_number (c # cs) =
     (if c = CHR ''('' \<and> takeWhile ascii_digit cs \<noteq> []
         \<and> (case dropWhile ascii_digit cs of [] \<Rightarrow> False | d # _ \<Rightarrow> d = CHR '')'')
      then Some (int_of_digits (takeWhile ascii_digit cs))
      else find_paren_number cs)"

definition true_values :: "string list" where
  "true_values = [''true'', ''1'', ''s'', ''si'', [CHR ''s'', CHR 0xED], ''yes'', ''y'']"

definition false_values :: "string list" where
  "false_values = [''false'', ''0'', ''n'', ''no'']"

text \<open>The value for an empty cell of a column that is not nullable.\<close>

definition empty_fallback :: "py_env \<Rightarrow> string \<Rightarrow> pyval \<Rightarrow> pyval" where
  "empty_fallback env upper_type default_value =
     (if default_value \<noteq> PNone then
        (if is_sql_date_function default_value then PTimestamp (timestamp_now env)
         else default_value)
      else if any_in int_types upper_type then PInt 0
      else if any_in float_types upper_type then PFloat (Finite 0)
      else if any_in date_types upper_type then PTimestamp (timestamp_now env)
      else if py_contains ''BIT'' upper_type then PInt 0
      else PStr [])"

text \<open>\<open>default_value if default_value is not None else (None if nullable else zero)\<close>.\<close>

definition conversion_fallback :: "bool \<Rightarrow> pyval \<Rightarrow> pyval \<Rightarrow> pyval" where
  "conversion_fallback nullable default_value zero =
     (if default_value \<noteq> PNone then default_value
      else if nullable then PNone else zero)"

definition normalize_int :: "pyval \<Rightarrow> bool \<Rightarrow> pyval \<Rightarrow> pyexn + pyval" where
  "normalize_int v nullable default_value =
     (case py_float (strip_if_str v) of
        Inr f \<Rightarrow>
          (case py_int_of_float f of
             Inr i \<Rightarrow> Inr (PInt i)
           | Inl e \<Rightarrow> if caught e then Inr (conversion_fallback nullable default_value (PInt 0))
                      else Inl e)
      | Inl e \<Rightarrow> if caught e then Inr (conversion_fallback nullable default_value (PInt 0))
                 else Inl e)"

definition normalize_float :: "pyval \<Rightarrow> bool \<Rightarrow> pyval \<Rightarrow> pyexn + pyval" where
  "normalize_float v nullable default_value =
     (case py_float (strip_if_str v) of
        Inr f \<Rightarrow> Inr (PFloat f)
      | Inl e \<Rightarrow> if caught e
                 then Inr (conversion_fallback nullable default_value (PFloat (Finite 0)))
                 else Inl e)"

definition normalize_date :: "py_env \<Rightarrow> pyval \<Rightarrow> bool \<Rightarrow> pyval \<Rightarrow> pyexn + pyval" where
  "normalize_date env v nullable default_value =
     (if is_sql_date_function v then Inr (PTimestamp (timestamp_now env))
      else (case v of
              PStr s \<Rightarrow>
                (case to_datetime env s of
                   Inr parsed_date \<Rightarrow> Inr parsed_date
                 | Inl e \<Rightarrow>
                     if caught e then
                       (if default_value \<noteq> PNone then
                          (if is_sql_date_function default_value
                           then Inr (PTimestamp (timestamp_now env)) else Inr default_value)
                        else Inr (if nullable then PNone else PTimestamp (timestamp_now env)))
                     else Inl e)
            | _ \<Rightarrow> Inr v))"

definition normalize_bit :: "pyval \<Rightarrow> bool \<Rightarrow> pyval \<Rightarrow> pyval" where
  "normalize_bit v nullable default_value =
     (case v of
        PBool b \<Rightarrow> PInt (if b then 1 else 0)
      | PInt i \<Rightarrow> PInt (if i \<noteq> 0 then 1 else 0)
      | PFloat f \<Rightarrow> PInt (if f \<noteq> Finite 0 then 1 else 0)
      | PStr s \<Rightarrow>
          (let value_lower = py_strip (py_lower s) in
           if value_lower \<in> set true_values then PInt 1
           else if value_lower \<in> set false_values then PInt 0
           else conversion_fallback nullable default_value (PInt 0))
      | _ \<Rightarrow> conversion_fallback nullable default_value (PInt 0))"

definition normalize_text :: "py_env \<Rightarrow> pyval \<Rightarrow> string \<Rightarrow> string \<Rightarrow> bool \<Rightarrow> pyval" where
  "normalize_text env v sql_type upper_type nullable =
     (if isna v then (if nullable then PNone else PStr [])
      else
        (let str_value = py_str env v in
         if py_contains ''VARCHAR'' upper_type \<or> py_contains ''CHAR'' upper_type then
           (case find_paren_number sql_type of
              Some max_length \<Rightarrow>
                if length str_value > max_length then PStr (take max_length str_value)
                else PStr str_value
            | None \<Rightarrow> PStr str_value)
         else PStr str_value))"

text \<open>
  \<open>normalize_value_by_type(value, sql_type, nullable, default_value)\<close>. The result is
  \<open>Inr\<close> the value returned, or \<open>Inl\<close> the exception that leaves the function. The
  calls of \<open>logger.warning\<close> write to the log only and are left out.
\<close>

definition normalize_value_by_type ::
  "py_env \<Rightarrow> pyval \<Rightarrow> string \<Rightarrow> bool \<Rightarrow> pyval \<Rightarrow> pyexn + pyval" where
  "normalize_value_by_type env v sql_type nullable default_value =
     (let upper_type = py_upper sql_type in
      if is_empty v then
        (if nullable then Inr PNone else Inr (empty_fallback env upper_type default_value))
      else if any_in int_types upper_type then normalize_int v nullable default_value
      else if any_in float_types upper_type then normalize_float v nullable default_value
      else if any_in date_types upper_type then normalize_date env v nullable default_value
      else if py_contains ''BIT'' upper_type then Inr (normalize_bit v nullable default_value)
      else Inr (normalize_text env v sql_type upper_type nullable))"

section \<open>Frames and column mappings\<close>

text \<open>
  A column mapping is the dictionary \<open>{'renamed_to': .., 'sql_type': .., 'nullable': ..,
  'default_value': ..}\<close>; a key that is absent is \<open>None\<close> here and takes the default of
  the \<open>config.get\<close> that reads it (\<open>default_value\<close> is read with \<open>None\<close> as default).
  The mappings of one sheet are a dictionary from column labels to such configurations,
  kept in insertion order.
\<close>

record column_config =
  cfg_renamed_to :: "string option"
  cfg_sql_type :: "string option"
  cfg_nullable :: "bool option"
  cfg_default_value :: pyval

type_synonym column_mappings = "(string \<times> column_config) list"

text \<open>
  A frame has a number of rows (the length of its index) and labelled columns, in order;
  labels may repeat, as in pandas.
\<close>

record dataframe =
  df_nrows :: nat
  df_columns :: "(string \<times> pyval list) list"

definition df_labels :: "dataframe \<Rightarrow> string list" where
  "df_labels df = map fst (df_columns df)"

definition df_column :: "dataframe \<Rightarrow> string \<Rightarrow> pyval list option" where
  "df_column df col = map_of (df_columns df) col"

text \<open>\<open>df[col] = values\<close> for a label that is present: the column is replaced in place.\<close>

definition set_column :: "dataframe \<Rightarrow> string \<Rightarrow> pyval list \<Rightarrow> dataframe" where
  "set_column df col new_values =
     df\<lparr>df_columns := map (\<lambda>(label, old_values).
                              if label = col then (label, new_values) else (label, old_values))
                            (df_columns df)\<rparr>"

text \<open>\<open>df.empty\<close>: no rows or no columns.\<close>

definition df_empty :: "dataframe \<Rightarrow> bool" where
  "df_empty df = (df_nrows df = 0 \<or> df_columns df = [])"

section \<open>ValueNormalizer on a frame: \<open>normalize_dataframe_by_mappings\<close>\<close>

text \<open>\<open>Series.apply(f)\<close>: the function on every cell; the first exception ends the call.\<close>

fun series_apply :: "(pyval \<Rightarrow> pyexn + pyval) \<Rightarrow> pyval list \<Rightarrow> pyexn + pyval list" where
  "series_apply f [] = Inr []"
| "series_apply f (v # vs) =
     (case f v of
        Inl e \<Rightarrow> Inl e
      | Inr w \<Rightarrow> (case series_apply f vs of Inl e \<Rightarrow> Inl e | Inr ws \<Rightarrow> Inr (w # ws)))"

datatype normalization_warning =
    ColumnNotInFrame string
  | NormalizeFailed string pyexn

text \<open>
  One round of the loop over \<open>column_mappings.items()\<close>. Where the label occurs more than
  once, \<open>df_result[original_col]\<close> is a frame and \<open>apply\<close> hands whole columns to
  \<open>normalize_value_by_type\<close>, whose test \<open>pd.isna(value) or ...\<close> raises \<open>ValueError\<close>
  on a column; a frame without rows is returned as it is. The \<open>except Exception\<close> of
  the loop turns every exception into a warning and leaves the column as it was.
\<close>

definition normalize_column ::
  "py_env \<Rightarrow> dataframe \<times> normalization_warning list \<Rightarrow> string \<times> column_config
     \<Rightarrow> dataframe \<times> normalization_warning list" where
  "normalize_column env acc mapping =
     (let (df_result, warnings) = acc;
          (original_col, config) = mapping
      in if original_col \<notin> set (df_labels df_result)
         then (df_result, warnings @ [ColumnNotInFrame original_col])
         else
           (let sql_type = (case cfg_sql_type config of None \<Rightarrow> ''NVARCHAR(255)'' | Some t \<Rightarrow> t);
                nullable = (case cfg_nullable config of None \<Rightarrow> True | Some b \<Rightarrow> b);
                default_value = cfg_default_value config
            in if length (filter (\<lambda>l. l = original_col) (df_labels df_result)) > 1
               then (if df_nrows df_result = 0 then (df_result, warnings)
                     else (df_result, warnings @ [NormalizeFailed original_col ValueError]))
               else
                 (case df_column df_result original_col of
                    None \<Rightarrow> (df_result, warnings)
                  | Some cells \<Rightarrow>
                      (case series_apply
                              (\<lambda>x. normalize_value_by_type env x sql_type nullable default_value)
                              cells of
                         Inl e \<Rightarrow> (df_result, warnings @ [NormalizeFailed original_col e])
                       | Inr new_cells \<Rightarrow>
                           (set_column df_result original_col new_cells, warnings)))))"

definition normalize_dataframe_by_mappings ::
  "py_env \<Rightarrow> dataframe \<Rightarrow> column_mappings \<Rightarrow> dataframe \<times> normalization_warning list" where
  "normalize_dataframe_by_mappings env df column_mappings =
     foldl (normalize_column env) (df, []) column_mappings"

section \<open>TypeProfiler: \<open>infer_sql_type\<close>\<close>

datatype dtype = IntegerDtype | FloatDtype | DatetimeDtype | BoolDtype | ObjectDtype | OtherDtype

record series =
  s_dtype :: dtype
  s_values :: "pyval list"

datatype profile_warning =
    EmptyColumn
  | NonNumericValues rat
  | NonDateValues rat
  | UnknownDtype dtype

text \<open>
  The dictionary that \<open>infer_sql_type\<close> returns. The two mixed-type warnings carry the
  success rate; the text of the message (a percentage) is not modelled.
\<close>

record column_profile =
  sql_type :: string
  confidence :: rat
  nullable :: bool
  default_value :: "string option"
  warnings :: "profile_warning list"
  mixed_types :: bool

definition bool_values :: "string list" where
  "bool_values = [''true'', ''false'', ''1'', ''0'', ''s'', ''n'', ''si'',
                  [CHR ''s'', CHR 0xED], ''no'', ''yes'']"

definition int_values :: "pyval list \<Rightarrow> int list" where
  "int_values vs = concat (map (\<lambda>v. case v of PInt i \<Rightarrow> [i] | _ \<Rightarrow> []) vs)"

definition list_min :: "int list \<Rightarrow> int" where
  "list_min xs = foldl min (hd xs) (tl xs)"

definition list_max :: "int list \<Rightarrow> int" where
  "list_max xs = foldl max (hd xs) (tl xs)"

definition integer_sql_type :: "int \<Rightarrow> int \<Rightarrow> string" where
  "integer_sql_type min_val max_val =
     (if min_val \<ge> 0 \<and> max_val \<le> 255 then ''TINYINT''
      else if min_val \<ge> - 32768 \<and> max_val \<le> 32767 then ''SMALLINT''
      else if min_val \<ge> - 2147483648 \<and> max_val \<le> 2147483647 then ''INT''
      else ''BIGINT'')"

text \<open>
  \<open>(numeric_converted == numeric_converted.astype(int, errors='ignore')).all()\<close>: the
  cast raises on a non-finite value and is then ignored, so that the column is compared
  with itself; otherwise every value must equal its truncation to a 64-bit integer.
\<close>

fun is_finite :: "pyfloat \<Rightarrow> bool" where
  "is_finite (Finite r) = True"
| "is_finite _ = False"

fun is_integral :: "pyfloat \<Rightarrow> bool" where
  "is_integral (Finite r) = (r = of_int \<lfloor>r\<rfloor> \<and> \<bar>r\<bar> < 2 ^ 63)"
| "is_integral _ = False"

definition all_integers :: "pyfloat list \<Rightarrow> bool" where
  "all_integers converted =
     (if list_all is_finite converted then list_all is_integral converted
      else list_all (\<lambda>f. f \<noteq> NaN) converted)"

text \<open>
  The size of the text type: the tiers 50, 100, 255 and 500, and beyond them
  \<open>max(int(max_length * 1.25), 1000)\<close>. The product with 1.25 is exact in binary64 for
  every length below \<open>2^50\<close>, so that its integer part is \<open>5 * max_length div 4\<close>.
\<close>

definition varchar_size :: "nat \<Rightarrow> nat" where
  "varchar_size max_length =
     (if max_length \<le> 50 then 50
      else if max_length \<le> 100 then 100
      else if max_length \<le> 255 then 255
      else if max_length \<le> 500 then 500
      else max (5 * max_length div 4) 1000)"

definition observed_max_length :: "py_env \<Rightarrow> pyval list \<Rightarrow> nat" where
  "observed_max_length env non_null = foldl max 0 (map (\<lambda>v. length (py_str env v)) non_null)"

text \<open>\<open>set(non_null.astype(str).str.lower().unique())\<close>, as a list without repetitions.\<close>

definition unique_lower :: "py_env \<Rightarrow> pyval list \<Rightarrow> string list" where
  "unique_lower env non_null = remdups (map (\<lambda>v. py_lower (py_str env v)) non_null)"

definition boolean_like :: "py_env \<Rightarrow> pyval list \<Rightarrow> bool" where
  "boolean_like env non_null =
     (set (unique_lower env non_null) \<subseteq> set bool_values \<and> length (unique_lower env non_null) \<le> 4)"

text \<open>
  The share of the values that coerce, \<open>notna().sum() / len(non_null)\<close>, as a rational;
  its comparison with 0.9 in binary64 agrees with the exact one for every sample of
  fewer than \<open>10^14\<close> values.
\<close>

definition numeric_success_rate :: "py_env \<Rightarrow> pyval list \<Rightarrow> rat" where
  "numeric_success_rate env non_null =
     of_nat (length (filter (\<lambda>v. to_numeric_coerce env v \<noteq> NaN) non_null))
       / of_nat (length non_null)"

definition date_success_rate :: "py_env \<Rightarrow> pyval list \<Rightarrow> rat" where
  "date_success_rate env non_null =
     of_nat (length (filter (\<lambda>v. \<not> isna (to_datetime_coerce env v)) non_null))
       / of_nat (length non_null)"

definition infer_text :: "py_env \<Rightarrow> pyval list \<Rightarrow> column_profile \<Rightarrow> column_profile" where
  "infer_text env non_null result =
     (let numeric_rate = numeric_success_rate env non_null;
          date_rate = date_success_rate env non_null
      in if numeric_rate > 9 / 10 then
           (let r1 = (if all_integers (map (to_numeric_coerce env) non_null)
                      then result\<lparr>sql_type := ''INT'', default_value := Some ''0''\<rparr>
                      else result\<lparr>sql_type := ''FLOAT'', default_value := Some ''0.0''\<rparr>);
                r2 = r1\<lparr>confidence := numeric_rate\<rparr>
            in if numeric_rate < 1
               then r2\<lparr>mixed_types := True,
                       warnings := warnings r2 @ [NonNumericValues numeric_rate]\<rparr>
               else r2)
         else if date_rate > 9 / 10 then
           (let r1 = result\<lparr>sql_type := ''DATE'', confidence := date_rate,
                             default_value := Some ''GETDATE()''\<rparr>
            in if date_rate < 1
               then r1\<lparr>mixed_types := True,
                       warnings := warnings r1 @ [NonDateValues date_rate]\<rparr>
               else r1)
         else result\<lparr>sql_type := ''NVARCHAR('' @ str_nat (varchar_size (observed_max_length env non_null)) @ '')'',
                      confidence := 1,
                      default_value := Some [CHR 0x27, CHR 0x27]\<rparr>)"

text \<open>
  The sample (\<open>series.sample(n=sample_size, random_state=42)\<close> for a longer column)
  and its values that are not null.
\<close>

definition sample_values :: "py_env \<Rightarrow> series \<Rightarrow> nat \<Rightarrow> pyval list" where
  "sample_values env series sample_size =
     (if length (s_values series) > sample_size
      then sample_n env sample_size (s_values series) else s_values series)"

definition non_null_values :: "py_env \<Rightarrow> series \<Rightarrow> nat \<Rightarrow> pyval list" where
  "non_null_values env series sample_size =
     filter (\<lambda>v. \<not> isna v) (sample_values env series sample_size)"

text \<open>\<open>infer_sql_type(series, sample_size)\<close>; \<open>sample_size\<close> is 1000 when not given.\<close>

definition infer_sql_type :: "py_env \<Rightarrow> series \<Rightarrow> nat \<Rightarrow> column_profile" where
  "infer_sql_type env series sample_size =
     (let sample = sample_values env series sample_size;
          null_count = length (filter isna sample);
          total_count = length sample;
          non_null = non_null_values env series sample_size;
          result = \<lparr>sql_type = ''NVARCHAR(255)'', confidence = 0,
                    nullable = (total_count > 0 \<and> 20 * null_count > total_count),
                    default_value = None, warnings = [], mixed_types = False\<rparr>;
          dtype = s_dtype series
      in if non_null = [] then result\<lparr>warnings := [EmptyColumn], nullable := True\<rparr>
         else if boolean_like env non_null
         then result\<lparr>sql_type := ''BIT'', confidence := 1, default_value := Some ''0''\<rparr>
         else if dtype = IntegerDtype
         then result\<lparr>sql_type := integer_sql_type (list_min (int_values non_null))
                                                    (list_max (int_values non_null)),
                      confidence := 1, default_value := Some ''0''\<rparr>
         else if dtype = FloatDtype
         then result\<lparr>sql_type := ''FLOAT'', confidence := 1, default_value := Some ''0.0''\<rparr>
         else if dtype = DatetimeDtype
         then result\<lparr>sql_type := ''DATETIME2'', confidence := 1,
                      default_value := Some ''GETDATE()''\<rparr>
         else if dtype = ObjectDtype then infer_text env non_null result
         else result\<lparr>warnings := [UnknownDtype dtype]\<rparr>)"

section \<open>MappingValidator: \<open>validate_column_mappings\<close>\<close>

text \<open>
  The configuration of a column as the process stores it, a JSON value. In the current
  format it is a dictionary; in the older format it is the new name of the column, a
  string. Under the keys \<open>renamed_to\<close> and \<open>sql_type\<close> a dictionary has a string, or
  \<open>null\<close>, or no entry. \<open>nullable\<close> and \<open>default_value\<close> are as in \<open>column_config\<close>.
\<close>

datatype json_text = JAbsent | JNull | JText string

datatype stored_config =
    ConfigDict json_text json_text "bool option" pyval
  | LegacyName string

type_synonym stored_mappings = "(string \<times> stored_config) list"

text \<open>
  \<open>config.get('renamed_to', original_col)\<close> and \<open>config.get('sql_type', '')\<close>. On a
  string the call of \<open>get\<close> raises \<open>AttributeError\<close>; on a dictionary the result is a
  string or \<open>None\<close>.
\<close>

fun get_renamed_to :: "string \<Rightarrow> stored_config \<Rightarrow> pyexn + string option" where
  "get_renamed_to original_col (LegacyName name) = Inl AttributeError"
| "get_renamed_to original_col (ConfigDict JAbsent s n d) = Inr (Some original_col)"
| "get_renamed_to original_col (ConfigDict JNull s n d) = Inr None"
| "get_renamed_to original_col (ConfigDict (JText t) s n d) = Inr (Some t)"

fun get_sql_type :: "stored_config \<Rightarrow> pyexn + string option" where
  "get_sql_type (LegacyName name) = Inl AttributeError"
| "get_sql_type (ConfigDict r JAbsent n d) = Inr (Some [])"
| "get_sql_type (ConfigDict r JNull n d) = Inr None"
| "get_sql_type (ConfigDict r (JText t) n d) = Inr (Some t)"

text \<open>
  A method of \<open>str\<close> called on such a result (\<open>.lower()\<close>, \<open>.upper()\<close>): \<open>None\<close> has no
  such method, and the call raises \<open>AttributeError\<close>.
\<close>

definition str_method :: "(string \<Rightarrow> string) \<Rightarrow> pyexn + string option \<Rightarrow> pyexn + string" where
  "str_method f v =
     (case v of
        Inl e \<Rightarrow> Inl e
      | Inr None \<Rightarrow> Inl AttributeError
      | Inr (Some s) \<Rightarrow> Inr (f s))"

datatype validation_error =
    COLUMN_NOT_FOUND string
  | DUPLICATE_SQL_NAME string string
  | INVALID_SQL_TYPE string string
  | NAME_TOO_LONG string string
  | INVALID_SQL_NAME string string

definition valid_types :: "string list" where
  "valid_types =
     [''INT'', ''BIGINT'', ''SMALLINT'', ''TINYINT'',
      ''FLOAT'', ''REAL'', ''DECIMAL'', ''NUMERIC'', ''MONEY'',
      ''DATE'', ''DATETIME'', ''DATETIME2'', ''TIME'', ''TIMESTAMP'',
      ''BIT'',
      ''VARCHAR'', ''NVARCHAR'', ''CHAR'', ''NCHAR'', ''TEXT'', ''NTEXT'']"

text \<open>
  \<open>re.match(r'^[a-zA-Z_][a-zA-Z0-9_]*$', sql_name)\<close>; the \<open>$\<close> also matches before a
  line feed that ends the string.
\<close>

definition ascii_letter :: "char \<Rightarrow> bool" where
  "ascii_letter c = (let n = code_point c in (65 \<le> n \<and> n \<le> 90) \<or> (97 \<le> n \<and> n \<le> 122))"

definition identifier_start :: "char \<Rightarrow> bool" where
  "identifier_start c = (ascii_letter c \<or> c = CHR ''_'')"

definition identifier_char :: "char \<Rightarrow> bool" where
  "identifier_char c = (ascii_letter c \<or> ascii_digit c \<or> c = CHR ''_'')"

definition matches_sql_identifier :: "string \<Rightarrow> bool" where
  "matches_sql_identifier s =
     (let body = (if s \<noteq> [] \<and> last s = CHR 0x0A then butlast s else s)
      in body \<noteq> [] \<and> identifier_start (hd body) \<and> list_all identifier_char (tl body))"

text \<open>
  The four passes of \<open>validate_column_mappings\<close>, each appending to \<open>errors\<close>. The first
  reads the keys only. The second calls \<open>.lower()\<close> on the name of every column, the
  third \<open>.upper()\<close> on its type, the fourth \<open>len\<close> on its name (\<open>TypeError\<close> on \<open>None\<close>);
  the first exception leaves the function.
\<close>

definition check_columns_exist :: "dataframe \<Rightarrow> stored_mappings \<Rightarrow> validation_error list" where
  "check_columns_exist df column_mappings =
     map COLUMN_NOT_FOUND (filter (\<lambda>c. c \<notin> set (df_labels df)) (map fst column_mappings))"

fun check_duplicate_names ::
  "string list \<Rightarrow> stored_mappings \<Rightarrow> pyexn + validation_error list" where
  "check_duplicate_names sql_names [] = Inr []"
| "check_duplicate_names sql_names ((original_col, config) # rest) =
     (case str_method py_lower (get_renamed_to original_col config) of
        Inl e \<Rightarrow> Inl e
      | Inr sql_name \<Rightarrow>
          (case check_duplicate_names (sql_names @ [sql_name]) rest of
             Inl e \<Rightarrow> Inl e
           | Inr errors \<Rightarrow>
               Inr ((if sql_name \<in> set sql_names
                     then [DUPLICATE_SQL_NAME original_col sql_name] else []) @ errors)))"

fun check_sql_types :: "stored_mappings \<Rightarrow> pyexn + validation_error list" where
  "check_sql_types [] = Inr []"
| "check_sql_types ((original_col, config) # rest) =
     (case str_method py_upper (get_sql_type config) of
        Inl e \<Rightarrow> Inl e
      | Inr upper_type \<Rightarrow>
          (case check_sql_types rest of
             Inl e \<Rightarrow> Inl e
           | Inr errors \<Rightarrow>
               Inr ((if \<not> any_in valid_types upper_type
                     then [INVALID_SQL_TYPE original_col upper_type] else []) @ errors)))"

fun check_sql_names :: "stored_mappings \<Rightarrow> pyexn + validation_error list" where
  "check_sql_names [] = Inr []"
| "check_sql_names ((original_col, config) # rest) =
     (case get_renamed_to original_col config of
        Inl e \<Rightarrow> Inl e
      | Inr None \<Rightarrow> Inl TypeError
      | Inr (Some sql_name) \<Rightarrow>
          (case check_sql_names rest of
             Inl e \<Rightarrow> Inl e
           | Inr errors \<Rightarrow>
               Inr ((if length sql_name > 128
                     then [NAME_TOO_LONG original_col sql_name] else [])
                    @ (if \<not> matches_sql_identifier sql_name
                       then [INVALID_SQL_NAME original_col sql_name] else [])
                    @ errors)))"

text \<open>
  \<open>validate_column_mappings(df, column_mappings)\<close>: \<open>Inr\<close> the pair
  \<open>(len(errors) == 0, errors)\<close>, or \<open>Inl\<close> the exception that leaves the function.
\<close>

definition validate_column_mappings ::
  "dataframe \<Rightarrow> stored_mappings \<Rightarrow> pyexn + bool \<times> validation_error list" where
  "validate_column_mappings df column_mappings =
     (case check_duplicate_names [] column_mappings of
        Inl e \<Rightarrow> Inl e
      | Inr duplicate_errors \<Rightarrow>
          (case check_sql_types column_mappings of
             Inl e \<Rightarrow> Inl e
           | Inr type_errors \<Rightarrow>
               (case check_sql_names column_mappings of
                  Inl e \<Rightarrow> Inl e
                | Inr name_errors \<Rightarrow>
                    (let errors = check_columns_exist df column_mappings
                                  @ duplicate_errors @ type_errors @ name_errors
                     in Inr (errors = [], errors)))))"

section \<open>Materialization: \<open>_save_dataframe_to_destination\<close>\<close>

text \<open>
  The destination is reached through pyodbc; every call may raise. \<open>db_env\<close> says which
  calls do, and what \<open>cursor.rowcount\<close> is after a bulk insert.
\<close>

record db_env =
  connect_raises :: bool
  drop_raises :: bool
  create_raises :: bool
  ddl_commit_raises :: bool
  executemany_raises :: bool
  rowcount :: int
  row_raises :: "nat \<Rightarrow> bool"
  final_commit_raises :: bool
  close_raises :: bool

text \<open>
  What the function does to the destination and to the log, in order. The text of the
  SQL statements (built by \<open>_generate_create_table_sql\<close> and from the cleaned column
  names) is not modelled: a statement is identified by its kind and its table, a bulk
  insert also by the number of rows handed to \<open>executemany\<close>. The frame that is inserted
  is the normalized one after \<open>apply_default_values_from_mappings\<close>; both steps keep
  the rows of the frame.
\<close>

datatype event =
    Connected
  | DropTable string
  | CreateTable string
  | Committed
  | ValidationFailed "validation_error list"
  | ValidationPassed
  | Normalized "normalization_warning list"
  | BasicNormalization
  | BulkInsert string nat
  | RowInsert string nat
  | Closed

record save_result =
  save_success :: bool
  records_inserted :: int
  save_trace :: "event list"

text \<open>
  \<open>self.column_mappings[source_table_name]\<close> when \<open>self.column_mappings\<close> and
  \<open>source_table_name\<close> are not empty and the key is present, else \<open>{}\<close>.
\<close>

definition mappings_for :: "(string \<times> stored_mappings) list \<Rightarrow> string \<Rightarrow> stored_mappings" where
  "mappings_for all_mappings source_table_name =
     (if all_mappings \<noteq> [] \<and> source_table_name \<noteq> []
      then (case map_of all_mappings source_table_name of None \<Rightarrow> [] | Some m \<Rightarrow> m)
      else [])"

text \<open>
  \<open>_generate_create_table_sql\<close> takes the declared type of a column when there is one
  (\<open>if sql_type_override:\<close>) and reads \<open>df[column].dtype\<close> otherwise. For a label that
  occurs more than once \<open>df[column]\<close> is a frame, which has no \<open>dtype\<close>, and the call
  raises \<open>AttributeError\<close> before any statement is executed.
\<close>

fun declared_type :: "stored_config option \<Rightarrow> bool" where
  "declared_type (Some (ConfigDict r (JText t) n d)) = (t \<noteq> [])"
| "declared_type _ = False"

definition repeated_labels :: "dataframe \<Rightarrow> string list" where
  "repeated_labels df =
     filter (\<lambda>l. length (filter (\<lambda>k. k = l) (df_labels df)) > 1) (df_labels df)"

definition create_sql_raises :: "dataframe \<Rightarrow> stored_mappings \<Rightarrow> bool" where
  "create_sql_raises df column_mappings =
     list_ex (\<lambda>l. \<not> declared_type (map_of column_mappings l)) (repeated_labels df)"

text \<open>
  The column list of the INSERT statement: for a column whose configuration is a
  dictionary, \<open>custom_name = column_mappings[col].get('renamed_to', col)\<close>, and
  \<open>custom_name.replace(' ', '_')\<close> raises \<open>AttributeError\<close> when that is \<open>None\<close>.
\<close>

fun custom_name_raises :: "stored_config option \<Rightarrow> bool" where
  "custom_name_raises (Some (ConfigDict JNull s n d)) = True"
| "custom_name_raises _ = False"

definition insert_sql_raises :: "dataframe \<Rightarrow> stored_mappings \<Rightarrow> bool" where
  "insert_sql_raises df column_mappings =
     list_ex (\<lambda>l. custom_name_raises (map_of column_mappings l)) (df_labels df)"

text \<open>
  The validation step: \<open>if not is_valid: logger.error(...)  # Continuar pero registrar
  errores\<close>.
\<close>

definition validation_event :: "bool \<times> validation_error list \<Rightarrow> event" where
  "validation_event v = (if fst v then ValidationPassed else ValidationFailed (snd v))"

text \<open>
  The configurations as \<open>normalize_dataframe_by_mappings\<close> reads them. It is called
  after the validation has returned, when every configuration is a dictionary whose
  \<open>renamed_to\<close> and \<open>sql_type\<close> are strings or absent.
\<close>

fun text_option :: "json_text \<Rightarrow> string option" where
  "text_option (JText t) = Some t"
| "text_option _ = None"

fun to_column_config :: "stored_config \<Rightarrow> column_config" where
  "to_column_config (ConfigDict r s n d) =
     \<lparr>cfg_renamed_to = text_option r, cfg_sql_type = text_option s,
      cfg_nullable = n, cfg_default_value = d\<rparr>"
| "to_column_config (LegacyName name) =
     \<lparr>cfg_renamed_to = Some name, cfg_sql_type = None,
      cfg_nullable = None, cfg_default_value = PNone\<rparr>"

definition to_column_mappings :: "stored_mappings \<Rightarrow> column_mappings" where
  "to_column_mappings m = map (\<lambda>(original_col, config). (original_col, to_column_config config)) m"

text \<open>
  \<open>cursor.executemany\<close>, and the insertion row by row when it raises; a row that raises
  is skipped.
\<close>

definition insert_rows :: "db_env \<Rightarrow> string \<Rightarrow> nat \<Rightarrow> int \<times> event list" where
  "insert_rows db table n =
     (if n = 0 then (0, [])
      else if executemany_raises db then
        (let inserted = filter (\<lambda>i. \<not> row_raises db i) [0..<n]
         in (int (length inserted), map (RowInsert table) inserted))
      else (if rowcount db \<noteq> - 1 then rowcount db else int n, [BulkInsert table n]))"

text \<open>
  The block \<open>if not df_datos.empty:\<close>, between the commit of the table and the final
  commit: the events, and \<open>Inr\<close> the number of rows inserted or \<open>Inl\<close> the exception that
  reaches the outer \<open>except\<close>. The conversion of the rows reads \<open>row[col]\<close>, which for a
  repeated label is a column, and the test \<open>pd.isna(valor)\<close> on it raises \<open>ValueError\<close>.
\<close>

definition load_events ::
  "py_env \<Rightarrow> db_env \<Rightarrow> dataframe \<Rightarrow> string \<Rightarrow> stored_mappings
     \<Rightarrow> event list \<times> (pyexn + int)" where
  "load_events env db df_datos table column_mappings =
     (if df_empty df_datos then ([], Inr 0)
      else if insert_sql_raises df_datos column_mappings then ([], Inl AttributeError)
      else if column_mappings \<noteq> [] then
        (case validate_column_mappings df_datos column_mappings of
           Inl e \<Rightarrow> ([], Inl e)
         | Inr verdict \<Rightarrow>
             (let checked =
                    [validation_event verdict,
                     Normalized (snd (normalize_dataframe_by_mappings env df_datos
                                        (to_column_mappings column_mappings)))]
              in if \<not> distinct (df_labels df_datos) then (checked, Inl ValueError)
                 else
                   (let (registros_insertados, inserts) =
                          insert_rows db table (df_nrows df_datos)
                    in (checked @ inserts, Inr registros_insertados))))
      else if \<not> distinct (df_labels df_datos) then ([BasicNormalization], Inl ValueError)
      else
        (let (registros_insertados, inserts) = insert_rows db table (df_nrows df_datos)
         in (BasicNormalization # inserts, Inr registros_insertados)))"

text \<open>
  The outer \<open>except\<close>: the cursor and the connection are closed, an exception of the
  closing is swallowed, and the failure is returned.
\<close>

definition close_events :: "db_env \<Rightarrow> event list" where
  "close_events db = (if close_raises db then [] else [Closed])"

definition save_failed :: "event list \<Rightarrow> save_result" where
  "save_failed trace = \<lparr>save_success = False, records_inserted = 0, save_trace = trace\<rparr>"

definition save_dataframe_to_destination ::
  "py_env \<Rightarrow> db_env \<Rightarrow> (string \<times> stored_mappings) list \<Rightarrow> dataframe \<Rightarrow> string \<Rightarrow> string
     \<Rightarrow> save_result" where
  "save_dataframe_to_destination env db all_mappings df_datos nombre_tabla_destino source_table_name =
     (let t = nombre_tabla_destino;
          column_mappings = mappings_for all_mappings source_table_name
      in if connect_raises db then save_failed []
         else if create_sql_raises df_datos column_mappings
         then save_failed (Connected # close_events db)
         else if drop_raises db then save_failed (Connected # close_events db)
         else if create_raises db then save_failed ([Connected, DropTable t] @ close_events db)
         else if ddl_commit_raises db
         then save_failed ([Connected, DropTable t, CreateTable t] @ close_events db)
         else
           (let ddl = [Connected, DropTable t, CreateTable t, Committed];
                (load, outcome) = load_events env db df_datos t column_mappings
            in case outcome of
                 Inl e \<Rightarrow> save_failed (ddl @ load @ close_events db)
               | Inr registros_insertados \<Rightarrow>
                   if final_commit_raises db then save_failed (ddl @ load @ close_events db)
                   else if close_raises db then save_failed (ddl @ load @ [Committed])
                   else \<lparr>save_success = True, records_inserted = registros_insertados,
                         save_trace = ddl @ load @ [Committed, Closed]\<rparr>))"

section \<open>ProcessAggregator: \<open>_process_excel_sheets_individually\<close>\<close>

text \<open>
  \<open>\w\<close> on Latin-1: the characters for which \<open>str.isalnum\<close> holds, and \<open>_\<close>.
\<close>

definition word_char :: "char \<Rightarrow> bool" where
  "word_char c = (let n = code_point c in
     (48 \<le> n \<and> n \<le> 57) \<or> (65 \<le> n \<and> n \<le> 90) \<or> (97 \<le> n \<and> n \<le> 122) \<or> n = 95
     \<or> n \<in> {170, 178, 179, 181, 185, 186, 188, 189, 190}
     \<or> (192 \<le> n \<and> n \<le> 214) \<or> (216 \<le> n \<and> n \<le> 246) \<or> 248 \<le> n)"

definition is_underscore :: "char \<Rightarrow> bool" where
  "is_underscore c = (c = CHR ''_'')"

function collapse_underscores :: "string \<Rightarrow> string" where
  "collapse_underscores [] = []"
| "collapse_underscores (c # cs) =
     (if is_underscore c then CHR ''_'' # collapse_underscores (dropWhile is_underscore cs)
      else c # collapse_underscores cs)"
  by pat_completeness auto
termination
  by (relation "measure length") (auto simp: le_imp_less_Suc length_dropWhile_le)

text \<open>
  The name of the table of the sheet with index \<open>hoja_index\<close>:
  \<open>f"{self.name}_hoja{hoja_index}"\<close>, blanks and hyphens replaced, every other non-word
  character replaced, runs of underscores collapsed, underscores stripped at both ends.
\<close>

definition destination_table_name :: "string \<Rightarrow> nat \<Rightarrow> string" where
  "destination_table_name name hoja_index =
     (let n0 = name @ ''_hoja'' @ str_nat hoja_index;
          n1 = replace_char CHR ''-'' CHR ''_'' (replace_char CHR '' '' CHR ''_'' n0);
          n2 = map (\<lambda>c. if word_char c then c else CHR ''_'') n1;
          n3 = collapse_underscores n2
      in rev (dropWhile is_underscore (rev (dropWhile is_underscore n3))))"

record migration_process =
  proc_name :: string
  selected_sheets :: "string list"
  proc_column_mappings :: "(string \<times> stored_mappings) list"

text \<open>
  The writes to the log store. \<open>ProcessTracker\<close> and \<open>MigrationLog\<close> save a record in
  the logs database at every call, and a save may raise. The calls of
  \<open>_process_excel_sheets_individually\<close> are: the log and the state of the main tracker
  before the loop; for the sheet with index \<open>i\<close> the start of its tracker, its changes
  of state, \<open>finalizar_exito\<close> in the success branch, \<open>finalizar_error\<close> in the failure
  branch and \<open>finalizar_error\<close> in the \<open>except\<close> of the loop; the state and the log after
  the loop; the state and the log in the outer \<open>except\<close>.
\<close>

datatype log_call =
    StartLog
  | MainTrackerState
  | SheetStart nat
  | SheetState nat
  | SheetSuccess nat
  | SheetFailure nat
  | HandlerError nat
  | FinalState
  | FinalLog
  | OuterState
  | OuterLog

text \<open>
  The workbook, the destination and the log store. \<open>excel_file_raises\<close>:
  \<open>self._get_excel_file()\<close> raises. \<open>load_sheet\<close>: the frame of a sheet after
  \<open>excel_file.parse\<close>, \<open>_clean_excel_dataframe\<close> and the selection of columns, or the
  exception raised on the way. \<open>destination\<close>: how the destination answers for a table.
  \<open>log_raises\<close>: the writes to the log store that raise.
\<close>

record excel_env =
  excel_file_raises :: bool
  load_sheet :: "string \<Rightarrow> pyexn + dataframe"
  destination :: "string \<Rightarrow> db_env"
  log_raises :: "log_call \<Rightarrow> bool"

datatype sheet_outcome =
    SheetProcessed string nat
  | SheetFailed string
  | SheetRaised pyexn

text \<open>
  The body of the \<open>try\<close> block of the loop, for one sheet: the start of the tracker, the
  reading of the sheet, the changes of state, the saving of the frame, and the branch
  on its result with the final write of the tracker. An exception anywhere in it reaches
  the \<open>except\<close> of the loop.
\<close>

definition process_sheet ::
  "py_env \<Rightarrow> excel_env \<Rightarrow> migration_process \<Rightarrow> nat \<Rightarrow> string \<Rightarrow> sheet_outcome" where
  "process_sheet env xl p hoja_index sheet_name =
     (if log_raises xl (SheetStart hoja_index) then SheetRaised DatabaseError
      else
        (case load_sheet xl sheet_name of
           Inl e \<Rightarrow> SheetRaised e
         | Inr df \<Rightarrow>
             if log_raises xl (SheetState hoja_index) then SheetRaised DatabaseError
             else
               (let nombre_tabla_destino = destination_table_name (proc_name p) hoja_index;
                    r = save_dataframe_to_destination env (destination xl nombre_tabla_destino)
                          (proc_column_mappings p) df nombre_tabla_destino sheet_name
                in if save_success r then
                     (if log_raises xl (SheetSuccess hoja_index) then SheetRaised DatabaseError
                      else SheetProcessed nombre_tabla_destino (df_nrows df))
                   else
                     (if log_raises xl (SheetFailure hoja_index) then SheetRaised DatabaseError
                      else SheetFailed nombre_tabla_destino))))"

record loop_state =
  hojas_procesadas :: "(string \<times> string \<times> nat) list"
  hojas_con_error :: "(string \<times> sheet_outcome) list"
  total_registros_procesados :: nat

text \<open>The two appends of the loop.\<close>

definition append_processed :: "loop_state \<Rightarrow> string \<Rightarrow> string \<Rightarrow> nat \<Rightarrow> loop_state" where
  "append_processed st sheet_name table_name registros_hoja =
     st\<lparr>hojas_procesadas := hojas_procesadas st @ [(sheet_name, table_name, registros_hoja)],
        total_registros_procesados := total_registros_procesados st + registros_hoja\<rparr>"

definition append_error :: "loop_state \<Rightarrow> string \<Rightarrow> sheet_outcome \<Rightarrow> loop_state" where
  "append_error st sheet_name outcome =
     st\<lparr>hojas_con_error := hojas_con_error st @ [(sheet_name, outcome)]\<rparr>"

text \<open>
  The loop \<open>for sheet_name in selected_sheets\<close>. After the body the sheet is appended to
  one of the two lists. In the \<open>except\<close> of the loop \<open>tracker_hoja.finalizar_error\<close> is
  called before the append and outside any \<open>try\<close> of its own: when it raises, the
  exception leaves the loop (\<open>Inl\<close>) and the sheets that remain are not processed.
\<close>

fun process_sheets ::
  "py_env \<Rightarrow> excel_env \<Rightarrow> migration_process \<Rightarrow> nat \<Rightarrow> string list \<Rightarrow> loop_state
     \<Rightarrow> pyexn + loop_state" where
  "process_sheets env xl p hoja_index [] st = Inr st"
| "process_sheets env xl p hoja_index (sheet_name # rest) st =
     (case process_sheet env xl p (hoja_index + 1) sheet_name of
        SheetProcessed table_name registros_hoja \<Rightarrow>
          process_sheets env xl p (hoja_index + 1) rest
            (append_processed st sheet_name table_name registros_hoja)
      | SheetFailed table_name \<Rightarrow>
          process_sheets env xl p (hoja_index + 1) rest
            (append_error st sheet_name (SheetFailed table_name))
      | SheetRaised e \<Rightarrow>
          if log_raises xl (HandlerError (hoja_index + 1)) then Inl DatabaseError
          else process_sheets env xl p (hoja_index + 1) rest
                 (append_error st sheet_name (SheetRaised e)))"

text \<open>
  The dictionary that the function returns. The failure of the outer \<open>except\<close> has the
  keys \<open>success\<close>, \<open>hojas_procesadas\<close> and \<open>hojas_con_error\<close> only; the other two fields
  are 0 there.
\<close>

record process_outcome =
  success_general :: bool
  hojas_exitosas :: nat
  hojas_fallidas :: nat
  total_hojas :: nat
  total_registros :: nat

text \<open>
  The body of the outer \<open>try\<close>: the workbook, the selected sheets, the two writes before
  the loop, the loop, the consolidation and the two writes after it.
\<close>

definition try_process_sheets ::
  "py_env \<Rightarrow> excel_env \<Rightarrow> migration_process \<Rightarrow> pyexn + process_outcome" where
  "try_process_sheets env xl p =
     (if excel_file_raises xl then Inl ValueError
      else if selected_sheets p = [] then Inl ValueError
      else if log_raises xl StartLog \<or> log_raises xl MainTrackerState then Inl DatabaseError
      else
        (case process_sheets env xl p 0 (selected_sheets p)
                \<lparr>hojas_procesadas = [], hojas_con_error = [],
                 total_registros_procesados = 0\<rparr> of
           Inl e \<Rightarrow> Inl e
         | Inr st \<Rightarrow>
             if log_raises xl FinalState \<or> log_raises xl FinalLog then Inl DatabaseError
             else Inr \<lparr>success_general = (length (hojas_procesadas st) > 0),
                       hojas_exitosas = length (hojas_procesadas st),
                       hojas_fallidas = length (hojas_con_error st),
                       total_hojas = length (selected_sheets p),
                       total_registros = total_registros_procesados st\<rparr>))"

text \<open>
  \<open>_process_excel_sheets_individually\<close>. The outer \<open>except\<close> writes the state and the
  log and returns the failure with no sheet processed and
  \<open>len(selected_sheets) if 'selected_sheets' in locals() else 0\<close> sheets in error; when
  one of its own writes raises, the exception leaves the function.
\<close>

definition process_excel_sheets_individually ::
  "py_env \<Rightarrow> excel_env \<Rightarrow> migration_process \<Rightarrow> pyexn + process_outcome" where
  "process_excel_sheets_individually env xl p =
     (case try_process_sheets env xl p of
        Inr outcome \<Rightarrow> Inr outcome
      | Inl e \<Rightarrow>
          if log_raises xl OuterState \<or> log_raises xl OuterLog then Inl DatabaseError
          else Inr \<lparr>success_general = False, hojas_exitosas = 0,
                    hojas_fallidas = (if excel_file_raises xl then 0
                                      else length (selected_sheets p)),
                    total_hojas = 0, total_registros = 0\<rparr>)"

section \<open>The environment of the scenarios\<close>

text \<open>
  The scenarios below are evaluated with this environment. Every value in them is a
  string or an integer. A string coerces to a number when \<open>float\<close> parses it to anything
  but \<open>NaN\<close>; no string of the scenarios is a date; the clock reads 0; a sample is a
  prefix. The renderings of floats and timestamps are not used by any scenario.
\<close>

definition scenario_to_numeric :: "pyval \<Rightarrow> pyfloat" where
  "scenario_to_numeric v = (case py_float v of Inl e \<Rightarrow> NaN | Inr f \<Rightarrow> f)"

definition scenario_env :: py_env where
  "scenario_env =
     \<lparr>timestamp_now = 0,
      to_datetime = (\<lambda>s. Inl ValueError),
      to_numeric_coerce = scenario_to_numeric,
      to_datetime_coerce = (\<lambda>v. case v of PTimestamp t \<Rightarrow> PTimestamp t | _ \<Rightarrow> PNaT),
      sample_n = take,
      repr_float = (\<lambda>f. ''float''),
      repr_timestamp = (\<lambda>t. ''timestamp'')\<rparr>"

text \<open>The frame and the mapping of the test \<open>test_preserves_non_mapped_columns\<close>.\<close>

definition example_frame :: dataframe where
  "example_frame =
     \<lparr>df_nrows = 3,
      df_columns = [(''col1'', [PInt 1, PInt 2, PInt 3]),
                    (''col2'', [PStr ''a'', PStr ''b'', PStr ''c''])]\<rparr>"

definition example_mappings :: column_mappings where
  "example_mappings =
     [(''col1'', \<lparr>cfg_renamed_to = Some ''col1'', cfg_sql_type = Some ''INT'',
                  cfg_nullable = Some False, cfg_default_value = PStr ''0''\<rparr>)]"

text \<open>
  The column of scenario E (the column \<open>activo\<close> of the fixture of the tests), and a
  column whose only value is a text of 600 characters.
\<close>

definition scenario_E :: series where
  "scenario_E =
     \<lparr>s_dtype = ObjectDtype,
      s_values = [PStr ''true'', PStr ''false'', PStr ''1'', PStr ''0'', PStr ''yes'']\<rparr>"

definition long_text_column :: series where
  "long_text_column =
     \<lparr>s_dtype = ObjectDtype, s_values = [PStr (replicate 600 CHR ''x'')]\<rparr>"

text \<open>
  A destination whose calls all succeed (\<open>cursor.rowcount\<close> is -1 after \<open>executemany\<close>,
  as pyodbc reports it), and one that refuses to create the table.
\<close>

definition reliable_db :: db_env where
  "reliable_db =
     \<lparr>connect_raises = False, drop_raises = False, create_raises = False,
      ddl_commit_raises = False, executemany_raises = False, rowcount = - 1,
      row_raises = (\<lambda>i. False), final_commit_raises = False, close_raises = False\<rparr>"

definition failing_create_db :: db_env where
  "failing_create_db = reliable_db\<lparr>create_raises := True\<rparr>"

text \<open>
  A sheet \<open>clientes\<close> with one row, and a configuration that renames its column to a name
  with a blank in it, which is not a valid SQL name.
\<close>

definition clientes_frame :: dataframe where
  "clientes_frame = \<lparr>df_nrows = 1, df_columns = [(''nombre'', [PStr ''Ana''])]\<rparr>"


text \<open>The same sheet with a configuration in the older format.\<close>

definition legacy_mappings :: "(string \<times> stored_mappings) list" where
  "legacy_mappings = [(''clientes'', [(''nombre'', LegacyName ''nombre_cliente'')])]"

text \<open>
  Scenario D: a process over three sheets, where the destination refuses the table of
  the second sheet and the log store accepts every write.
\<close>

definition scenario_D_process :: migration_process where
  "scenario_D_process =
     \<lparr>proc_name = ''Ventas'', selected_sheets = [''Enero'', ''Febrero'', ''Marzo''],
      proc_column_mappings = []\<rparr>"

definition scenario_D_workbook :: excel_env where
  "scenario_D_workbook =
     \<lparr>excel_file_raises = False,
      load_sheet = (\<lambda>sheet_name. Inr clientes_frame),
      destination = (\<lambda>table. if table = ''Ventas_hoja2'' then failing_create_db
                               else reliable_db),
      log_raises = (\<lambda>call. False)\<rparr>"

text \<open>
  The same process when the destination accepts every table and the log store is down
  while the second sheet is processed: the start of the tracker of that sheet raises,
  and so does \<open>finalizar_error\<close> in the \<open>except\<close> of the loop.
\<close>

definition log_outage_workbook :: excel_env where
  "log_outage_workbook =
     \<lparr>excel_file_raises = False,
      load_sheet = (\<lambda>sheet_name. Inr clientes_frame),
      destination = (\<lambda>table. reliable_db),
      log_raises = (\<lambda>call. call = SheetStart 2 \<or> call = HandlerError 2)\<rparr>"

text \<open>A sheet counts as processed when the body of the loop reached the success branch.\<close>

fun sheet_succeeded :: "sheet_outcome \<Rightarrow> bool" where
  "sheet_succeeded (SheetProcessed table_name registros) = True"
| "sheet_succeeded _ = False"

section \<open>Properties of the name normalizer\<close>

lemma next_free_not_taken: "suffixed b (next_free b ex c) \<notin> set ex"
  by (induction b ex c rule: next_free.induct) (simp add: next_free.simps)

lemma next_free_ge: "c \<le> next_free b ex c"
  by (induction b ex c rule: next_free.induct)
     (metis Suc_eq_plus1 Suc_leD le_refl next_free.simps)

lemma next_free_least: "c \<le> k \<Longrightarrow> k < next_free b ex c \<Longrightarrow> suffixed b k \<in> set ex"
proof (induction b ex c rule: next_free.induct)
  case (1 b ex c)
  show ?case
  proof (cases "suffixed b c \<in> set ex")
    case True
    show ?thesis
    proof (cases "k = c")
      case True
      with \<open>suffixed b c \<in> set ex\<close> show ?thesis by simp
    next
      case False
      with 1(2) have "c + 1 \<le> k" by simp
      moreover from 1(3) True have "k < next_free b ex (c + 1)"
        by (simp add: next_free.simps [of b ex c])
      ultimately show ?thesis using 1(1) True by simp
    qed
  next
    case False
    with 1(2,3) show ?thesis by (simp add: next_free.simps [of b ex c])
  qed
qed

lemma scenario_B_first: "normalize_name ''Ventas'' [] = ''ventas''"
  by code_simp

lemma scenario_B_second: "normalize_name ''ventas'' [''ventas''] = ''ventas_1''"
  by code_simp

lemma scenario_B_third: "normalize_name ''Ventas'' [''ventas'', ''ventas_1''] = ''ventas_2''"
  by code_simp

text \<open>
  Claim C6. When the cleaned name is, up to case, one of the existing names, the result
  is the base name with the suffix \<open>_N\<close>, where \<open>N\<close> is the least number from the start
  of the search on (1, or one more than the numeric suffix the name already has) whose
  suffixed name is not among the existing names in lower case. Normalizing
  \<open>Ventas\<close>, \<open>ventas\<close>, \<open>Ventas\<close> one after the other, each with the names obtained so far,
  gives \<open>ventas\<close>, \<open>ventas_1\<close>, \<open>ventas_2\<close>.
\<close>

theorem normalize_name_collision_suffix:
  "(clean_name name \<in> set (map py_lower existing_names) \<longrightarrow>
      (\<exists>N. normalize_name name existing_names = suffixed (fst (suffix_start (clean_name name))) N
         \<and> snd (suffix_start (clean_name name)) \<le> N
         \<and> suffixed (fst (suffix_start (clean_name name))) N \<notin> set (map py_lower existing_names)
         \<and> (\<forall>k. snd (suffix_start (clean_name name)) \<le> k \<and> k < N
               \<longrightarrow> suffixed (fst (suffix_start (clean_name name))) k
                     \<in> set (map py_lower existing_names))))
   \<and> normalize_name ''Ventas'' [] = ''ventas''
   \<and> normalize_name ''ventas'' [''ventas''] = ''ventas_1''
   \<and> normalize_name ''Ventas'' [''ventas'', ''ventas_1''] = ''ventas_2''"
proof -
  have general: "\<exists>N. normalize_name name existing_names = suffixed (fst (suffix_start (clean_name name))) N
         \<and> snd (suffix_start (clean_name name)) \<le> N
         \<and> suffixed (fst (suffix_start (clean_name name))) N \<notin> set (map py_lower existing_names)
         \<and> (\<forall>k. snd (suffix_start (clean_name name)) \<le> k \<and> k < N
               \<longrightarrow> suffixed (fst (suffix_start (clean_name name))) k
                     \<in> set (map py_lower existing_names))"
    if collide: "clean_name name \<in> set (map py_lower existing_names)"
  proof -
    obtain b c where bc: "suffix_start (clean_name name) = (b, c)"
      by (cases "suffix_start (clean_name name)")
    from collide have ne: "existing_names \<noteq> []" by auto
    let ?ex = "map py_lower existing_names"
    have "normalize_name name existing_names = suffixed b (next_free b ?ex c)"
      using collide ne bc by (simp add: normalize_name_def Let_def)
    then show ?thesis
      using bc next_free_not_taken [of b ?ex c] next_free_ge [of c b ?ex]
        next_free_least [of c _ b ?ex]
      by (intro exI [of _ "next_free b ?ex c"]) auto
  qed
  show ?thesis
    using general scenario_B_first scenario_B_second scenario_B_third by blast
qed

lemma hoja_collides: "clean_name ''Hoja_007'' \<in> set (map py_lower [''HOJA_007'', ''hoja_8''])"
  by code_simp

lemma hoja_start: "suffix_start (clean_name ''Hoja_007'') = (''hoja'', 8)"
  by code_simp

lemma hoja_8_taken: "suffixed ''hoja'' 8 \<in> set (map py_lower [''HOJA_007'', ''hoja_8''])"
  by code_simp

theorem normalize_name_collision_suffix_witness:
  "clean_name ''Hoja_007'' \<in> set (map py_lower [''HOJA_007'', ''hoja_8''])
   \<and> (\<exists>N. normalize_name ''Hoja_007'' [''HOJA_007'', ''hoja_8''] = suffixed ''hoja'' N
          \<and> 9 \<le> N
          \<and> suffixed ''hoja'' N \<notin> set (map py_lower [''HOJA_007'', ''hoja_8'']))"
proof -
  from normalize_name_collision_suffix [of "''Hoja_007''" "[''HOJA_007'', ''hoja_8'']"] hoja_collides
  obtain N where N: "normalize_name ''Hoja_007'' [''HOJA_007'', ''hoja_8''] = suffixed ''hoja'' N"
      "8 \<le> N" "suffixed ''hoja'' N \<notin> set (map py_lower [''HOJA_007'', ''hoja_8''])"
    unfolding hoja_start fst_conv snd_conv by blast
  from N(3) hoja_8_taken have "N \<noteq> 8" by metis
  with N(2) have "9 \<le> N" by simp
  with N(1,3) hoja_collides show ?thesis by blast
qed

text \<open>
  Claim C7. The claim asks for the unaccented letter in place of an accented one. The
  function deletes the accented letter: \<open>A\<close>, n-tilde, \<open>o 2024\<close> becomes \<open>ao_2024\<close>, where
  the claim (and the test of the repository on \<open>normalize_name\<close>) expects \<open>ano_2024\<close>.
\<close>

theorem normalize_name_deletes_accented_letter:
  "normalize_name (''A'' @ [CHR 0xF1] @ ''o 2024'') [] = ''ao_2024''
   \<and> normalize_name (''A'' @ [CHR 0xF1] @ ''o 2024'') [] \<noteq> ''ano_2024''"
  by code_simp

section \<open>Properties of the value normalizer\<close>

lemma float_overflow_big: "2 ^ 1023 \<le> float_overflow"
proof -
  have "(2::rat) ^ 970 \<le> 2 ^ 1023" by (rule power_increasing) simp_all
  moreover have "(2::rat) ^ 1024 = 2 * 2 ^ 1023" by simp
  ultimately show ?thesis unfolding float_overflow_def by linarith
qed

lemma round_float_small: "\<bar>r\<bar> < 1024 \<Longrightarrow> round_float r = Finite r"
proof -
  assume a: "\<bar>r\<bar> < 1024"
  have "(2::rat) ^ 10 \<le> 2 ^ 1023" by (rule power_increasing) simp_all
  with float_overflow_big have "1024 \<le> float_overflow" by simp
  with a show ?thesis by (auto simp: round_float_def)
qed

lemma int_type_INT: "any_in int_types (py_upper ''INT'')" by code_simp
lemma not_empty_25: "\<not> is_empty (PStr ''25'')" by code_simp
lemma not_empty_30: "\<not> is_empty (PStr ''30'')" by code_simp
lemma empty_blank: "is_empty (PStr '''')" by code_simp
lemma parse_25: "parse_decimal ''25'' = Some 25" by code_simp
lemma parse_30: "parse_decimal ''30'' = Some 30" by code_simp
lemma sign_25: "split_sign (py_strip (py_strip ''25'')) = (False, ''25'')" by code_simp
lemma sign_30: "split_sign (py_strip (py_strip ''30'')) = (False, ''30'')" by code_simp
lemma low_25: "py_lower ''25'' = ''25''" by code_simp
lemma low_30: "py_lower ''30'' = ''30''" by code_simp

lemma float_25: "py_float (strip_if_str (PStr ''25'')) = Inr (Finite 25)"
  by (simp add: py_float_str_def sign_25 parse_25 low_25 round_float_small)

lemma float_30: "py_float (strip_if_str (PStr ''30'')) = Inr (Finite 30)"
  by (simp add: py_float_str_def sign_30 parse_30 low_30 round_float_small)

lemma default_0: "empty_fallback env (py_upper ''INT'') (PStr ''0'') = PStr ''0''"
  by code_simp

text \<open>
  Claim C2. Under an INT mapping that is not nullable and has the default \<open>"0"\<close>, the
  values \<open>"25"\<close> and \<open>"30"\<close> become the integers 25 and 30. The empty cell becomes the
  default as it was configured, the string \<open>"0"\<close>, and not the integer 0 that the claim
  (and the docstring and the tests of the function) state.
\<close>

theorem scenario_A_default_is_string:
  "normalize_value_by_type env (PStr ''25'') ''INT'' False (PStr ''0'') = Inr (PInt 25)
   \<and> normalize_value_by_type env (PStr ''30'') ''INT'' False (PStr ''0'') = Inr (PInt 30)
   \<and> normalize_value_by_type env (PStr '''') ''INT'' False (PStr ''0'') = Inr (PStr ''0'')
   \<and> normalize_value_by_type env (PStr '''') ''INT'' False (PStr ''0'') \<noteq> Inr (PInt 0)"
  by (simp add: normalize_value_by_type_def normalize_int_def int_type_INT not_empty_25
      not_empty_30 empty_blank float_25 float_30 default_0 del: is_empty.simps strip_if_str.simps py_float.simps)

text \<open>
  Claim C4. The claim says that the normalizer never returns a null for a column that is
  not nullable. For the cell \<open>"nan"\<close> and the type FLOAT the function returns the float
  \<open>NaN\<close>, which \<open>pd.isna\<close> counts as null; for the cell \<open>"inf"\<close> and the type INT the
  conversion raises \<open>OverflowError\<close>, which the function does not catch, so that it
  returns nothing.
\<close>

theorem not_nullable_float_nan:
  "normalize_value_by_type env (PStr ''nan'') ''FLOAT'' False PNone = Inr (PFloat NaN)
   \<and> isna (PFloat NaN)
   \<and> normalize_value_by_type env (PStr ''inf'') ''INT'' False PNone = Inl OverflowError"
  by code_simp






section \<open>Properties of the normalization of a frame\<close>

lemma series_apply_length: "series_apply f cells = Inr new_cells \<Longrightarrow> length new_cells = length cells"
  by (induction cells arbitrary: new_cells) (auto split: sum.splits)

lemma set_column_nrows: "df_nrows (set_column df col vs) = df_nrows df"
  by (simp add: set_column_def)

lemma set_column_labels: "df_labels (set_column df col vs) = df_labels df"
  by (auto simp: set_column_def df_labels_def split: prod.splits)

lemma map_of_replace_other:
  "c \<noteq> col \<Longrightarrow> map_of (map (\<lambda>(l, old). if l = col then (l, vs) else (l, old)) cols) c = map_of cols c"
  by (induction cols) auto

lemma set_column_other: "c \<noteq> col \<Longrightarrow> df_column (set_column df col vs) c = df_column df c"
  by (simp add: set_column_def df_column_def map_of_replace_other)

lemma set_column_lengths:
  assumes "\<forall>(l, cells) \<in> set (df_columns df). length cells = n" and "length vs = n"
  shows "\<forall>(l, cells) \<in> set (df_columns (set_column df col vs)). length cells = n"
  using assms by (auto simp: set_column_def split: if_splits)

lemma map_of_length:
  "\<forall>(l, cells) \<in> set cols. length cells = n \<Longrightarrow> map_of cols c = Some vs \<Longrightarrow> length vs = n"
  by (auto dest: map_of_SomeD)

lemma normalize_column_cases:
  assumes "normalize_column env (df, ws) (col, config) = (df', ws')"
  shows "df' = df \<or> (\<exists>cells new_cells f. df_column df col = Some cells
           \<and> series_apply f cells = Inr new_cells \<and> df' = set_column df col new_cells)"
proof (cases "col \<in> set (df_labels df)")
  case False
  with assms show ?thesis by (simp add: normalize_column_def)
next
  case present: True
  show ?thesis
  proof (cases "length (filter (\<lambda>l. l = col) (df_labels df)) > 1")
    case True
    with present assms show ?thesis
      by (simp add: normalize_column_def Let_def split: if_splits)
  next
    case single: False
    show ?thesis
    proof (cases "df_column df col")
      case None
      with present single assms show ?thesis
        by (simp add: normalize_column_def Let_def)
    next
      case (Some cells)
      let ?f = "\<lambda>x. normalize_value_by_type env x
                  (case cfg_sql_type config of None \<Rightarrow> ''NVARCHAR(255)'' | Some t \<Rightarrow> t)
                  (case cfg_nullable config of None \<Rightarrow> True | Some b \<Rightarrow> b)
                  (cfg_default_value config)"
      show ?thesis
      proof (cases "series_apply ?f cells")
        case (Inl e)
        with Some present single assms show ?thesis
          by (simp add: normalize_column_def Let_def)
      next
        case (Inr new_cells)
        with Some present single assms have "df' = set_column df col new_cells"
          by (simp add: normalize_column_def Let_def)
        with Some Inr show ?thesis by blast
      qed
    qed
  qed
qed

lemma normalize_column_frame:
  assumes "normalize_column env (df, ws) (col, config) = (df', ws')"
  shows "df_nrows df' = df_nrows df"
    and "df_labels df' = df_labels df"
    and "c \<noteq> col \<Longrightarrow> df_column df' c = df_column df c"
    and "\<forall>(l, cells) \<in> set (df_columns df). length cells = n
         \<Longrightarrow> \<forall>(l, cells) \<in> set (df_columns df'). length cells = n"
proof -
  note cases = normalize_column_cases [OF assms]
  show "df_nrows df' = df_nrows df"
    using cases by (auto simp: set_column_nrows)
  show "df_labels df' = df_labels df"
    using cases by (auto simp: set_column_labels)
  show "df_column df' c = df_column df c" if "c \<noteq> col"
    using cases that by (auto simp: set_column_other)
  show "\<forall>(l, cells) \<in> set (df_columns df'). length cells = n"
    if wf: "\<forall>(l, cells) \<in> set (df_columns df). length cells = n"
    using cases
  proof (elim disjE exE conjE)
    assume "df' = df"
    with wf show ?thesis by simp
  next
    fix cells new_cells f
    assume c: "df_column df col = Some cells" and a: "series_apply f cells = Inr new_cells"
      and d: "df' = set_column df col new_cells"
    from wf c have "length cells = n"
      unfolding df_column_def by (rule map_of_length)
    with a have "length new_cells = n"
      by (simp add: series_apply_length)
    with wf show ?thesis unfolding d by (rule set_column_lengths)
  qed
qed

lemma foldl_normalize_frame:
  "foldl (normalize_column env) (df, ws) ms = (df', ws') \<Longrightarrow>
     df_nrows df' = df_nrows df
     \<and> df_labels df' = df_labels df
     \<and> (c \<notin> set (map fst ms) \<longrightarrow> df_column df' c = df_column df c)
     \<and> ((\<forall>(l, cells) \<in> set (df_columns df). length cells = n)
          \<longrightarrow> (\<forall>(l, cells) \<in> set (df_columns df'). length cells = n))"
proof (induction ms arbitrary: df ws)
  case Nil
  then show ?case by simp
next
  case (Cons m ms)
  obtain col config where m: "m = (col, config)" by (cases m)
  obtain df1 ws1 where step: "normalize_column env (df, ws) (col, config) = (df1, ws1)"
    by (cases "normalize_column env (df, ws) (col, config)")
  from Cons.prems have rest: "foldl (normalize_column env) (df1, ws1) ms = (df', ws')"
    by (simp add: m step)
  note ih = Cons.IH [OF rest]
  note st = normalize_column_frame [OF step]
  show ?case
    using ih st(1) st(2) st(3) [of c] st(4) [of n] by (auto simp: m)
qed

text \<open>
  Claim C10. For every frame and every column mapping, the normalized frame has the
  number of rows and the labels of the input, every column of it is as long as before,
  and a column whose label is not a key of the mapping is the column of the input.
\<close>

theorem normalize_dataframe_keeps_rows_and_other_columns:
  "df_nrows (fst (normalize_dataframe_by_mappings env df column_mappings)) = df_nrows df
   \<and> df_labels (fst (normalize_dataframe_by_mappings env df column_mappings)) = df_labels df
   \<and> ((\<forall>(l, cells) \<in> set (df_columns df). length cells = df_nrows df) \<longrightarrow>
        (\<forall>(l, cells) \<in> set (df_columns (fst (normalize_dataframe_by_mappings env df column_mappings))).
            length cells = df_nrows df))
   \<and> (\<forall>c. c \<notin> set (map fst column_mappings) \<longrightarrow>
          df_column (fst (normalize_dataframe_by_mappings env df column_mappings)) c
            = df_column df c)"
proof -
  obtain df' ws' where r: "normalize_dataframe_by_mappings env df column_mappings = (df', ws')"
    by (cases "normalize_dataframe_by_mappings env df column_mappings")
  then have f: "foldl (normalize_column env) (df, []) column_mappings = (df', ws')"
    by (simp add: normalize_dataframe_by_mappings_def)
  show ?thesis
    using foldl_normalize_frame [OF f, of _ "df_nrows df"] by (simp add: r)
qed

lemma example_frame_wf: "\<forall>(l, cells) \<in> set (df_columns example_frame). length cells = df_nrows example_frame"
  by (simp add: example_frame_def)
lemma col2_not_mapped: "''col2'' \<notin> set (map fst example_mappings)" by (simp add: example_mappings_def)
lemma example_col2: "df_column example_frame ''col2'' = Some [PStr ''a'', PStr ''b'', PStr ''c'']" by (simp add: example_frame_def df_column_def)

lemma example_labels: "df_labels example_frame = [''col1'', ''col2'']"
  by (simp add: example_frame_def df_labels_def)

theorem normalize_dataframe_keeps_rows_and_other_columns_witness:
  "df_nrows (fst (normalize_dataframe_by_mappings scenario_env example_frame example_mappings)) = 3
   \<and> df_labels (fst (normalize_dataframe_by_mappings scenario_env example_frame example_mappings))
       = [''col1'', ''col2'']
   \<and> list_all (\<lambda>column. length (snd column) = 3)
        (df_columns (fst (normalize_dataframe_by_mappings scenario_env example_frame example_mappings)))
   \<and> df_column (fst (normalize_dataframe_by_mappings scenario_env example_frame example_mappings)) ''col2''
       = Some [PStr ''a'', PStr ''b'', PStr ''c'']"
proof -
  note t = normalize_dataframe_keeps_rows_and_other_columns
    [of scenario_env example_frame example_mappings]
  have three: "df_nrows example_frame = 3"
    by (simp add: example_frame_def)
  from t have rows:
    "df_nrows (fst (normalize_dataframe_by_mappings scenario_env example_frame example_mappings)) = 3"
    by (simp add: three)
  from t have labels:
    "df_labels (fst (normalize_dataframe_by_mappings scenario_env example_frame example_mappings))
       = [''col1'', ''col2'']"
    by (simp add: example_labels)
  from t example_frame_wf have
    "\<forall>(l, cells) \<in> set (df_columns (fst (normalize_dataframe_by_mappings scenario_env
        example_frame example_mappings))). length cells = df_nrows example_frame"
    by blast
  then have lengths: "list_all (\<lambda>column. length (snd column) = 3)
        (df_columns (fst (normalize_dataframe_by_mappings scenario_env example_frame example_mappings)))"
    by (auto simp: list_all_iff three)
  from t col2_not_mapped have
    "df_column (fst (normalize_dataframe_by_mappings scenario_env example_frame example_mappings)) ''col2''
       = df_column example_frame ''col2''"
    by blast
  then have other:
    "df_column (fst (normalize_dataframe_by_mappings scenario_env example_frame example_mappings)) ''col2''
       = Some [PStr ''a'', PStr ''b'', PStr ''c'']"
    by (simp add: example_col2)
  show ?thesis
    by (intro conjI rows labels lengths other)
qed

section \<open>Properties of the type profiler\<close>

lemma E_non_null: "non_null_values env scenario_E 1000 = s_values scenario_E"
  by (simp add: non_null_values_def sample_values_def scenario_E_def)

lemma E_sample: "sample_values env scenario_E 1000 = s_values scenario_E"
  by (simp add: sample_values_def scenario_E_def)

lemma E_unique: "unique_lower env (s_values scenario_E) = [''true'', ''false'', ''1'', ''0'', ''yes'']"
  by code_simp

lemma E_not_boolean_like: "\<not> boolean_like env (s_values scenario_E)"
  by (simp add: boolean_like_def E_unique)

lemma E_numeric:
  "map (\<lambda>v. scenario_to_numeric v = NaN) (s_values scenario_E) = [True, True, False, False, True]"
proof -
  have "scenario_to_numeric (PStr ''true'') = NaN" by code_simp
  moreover have "scenario_to_numeric (PStr ''false'') = NaN" by code_simp
  moreover have "scenario_to_numeric (PStr ''yes'') = NaN" by code_simp
  moreover have "scenario_to_numeric (PStr ''1'') = Finite 1"
  proof -
    have "split_sign (py_strip ''1'') = (False, ''1'')" by code_simp
    moreover have "py_lower ''1'' = ''1''" by code_simp
    moreover have "parse_decimal ''1'' = Some 1" by code_simp
    ultimately show ?thesis
      by (simp add: scenario_to_numeric_def py_float_str_def round_float_small)
  qed
  moreover have "scenario_to_numeric (PStr ''0'') = Finite 0"
  proof -
    have "split_sign (py_strip ''0'') = (False, ''0'')" by code_simp
    moreover have "py_lower ''0'' = ''0''" by code_simp
    moreover have "parse_decimal ''0'' = Some 0" by code_simp
    ultimately show ?thesis
      by (simp add: scenario_to_numeric_def py_float_str_def round_float_small)
  qed
  ultimately show ?thesis by (simp add: scenario_E_def)
qed

lemma E_numeric_rate: "numeric_success_rate scenario_env (s_values scenario_E) = 2 / 5"
proof -
  have "filter (\<lambda>v. scenario_to_numeric v \<noteq> NaN) (s_values scenario_E) = [PStr ''1'', PStr ''0'']"
    using E_numeric by (simp add: scenario_E_def)
  then show ?thesis
    by (simp add: numeric_success_rate_def scenario_env_def) (simp add: scenario_E_def)
qed

lemma E_date_rate: "date_success_rate scenario_env (s_values scenario_E) = 0"
  by (simp add: date_success_rate_def scenario_env_def scenario_E_def)

lemma E_max_length: "observed_max_length env (s_values scenario_E) = 5"
  by (simp add: observed_max_length_def scenario_E_def)

lemma str_50: "str_nat (varchar_size 5) = ''50''"
  by code_simp

text \<open>
  Claim C3. The column of scenario E has five distinct values, all from the boolean
  vocabulary. The claim says that it is profiled as BIT with confidence 1 and default
  \<open>"0"\<close>; the function asks for at most four distinct values, falls through to the text
  rule and returns \<open>NVARCHAR(50)\<close> with the default \<open>''\<close>.
\<close>

theorem scenario_E_is_not_bit:
  "infer_sql_type scenario_env scenario_E 1000 =
     \<lparr>sql_type = ''NVARCHAR(50)'', confidence = 1, nullable = False,
      default_value = Some [CHR 0x27, CHR 0x27], warnings = [], mixed_types = False\<rparr>
   \<and> sql_type (infer_sql_type scenario_env scenario_E 1000) \<noteq> ''BIT''"
proof -
  have "filter isna (s_values scenario_E) = []" by (simp add: scenario_E_def)
  moreover have "s_values scenario_E \<noteq> []" "length (s_values scenario_E) = 5"
    "s_dtype scenario_E = ObjectDtype" by (simp_all add: scenario_E_def)
  ultimately show ?thesis
    by (simp add: infer_sql_type_def infer_text_def E_non_null E_sample E_not_boolean_like
        E_numeric_rate E_date_rate E_max_length str_50 Let_def)
qed

lemma scenario_E_never_bit: "sql_type (infer_sql_type env scenario_E 1000) \<noteq> ''BIT''"
proof -
  have "s_values scenario_E \<noteq> []" "s_dtype scenario_E = ObjectDtype"
    by (simp_all add: scenario_E_def)
  then show ?thesis
    by (simp add: infer_sql_type_def infer_text_def E_non_null E_sample E_not_boolean_like Let_def)
qed

lemma varchar_size_600: "varchar_size 600 = 1000"
  by (simp add: varchar_size_def)

text \<open>
  Claim C8, amended. For a column of strings or objects with a value that is not null,
  that is not boolean-like and whose numeric and date shares are at most 0.9, the type
  is \<open>NVARCHAR(n)\<close> where, for the longest observed length \<open>L\<close>, \<open>n\<close> is the first
  of the tiers 50, 100, 255, 500 that is at least \<open>L\<close>, and beyond 500 it is the larger
  of \<open>int(L * 1.25)\<close> and 1000; the length 600 gives 1000.
\<close>

theorem text_type_size:
  assumes "s_dtype series = ObjectDtype"
    and "non_null_values env series sample_size \<noteq> []"
    and "\<not> boolean_like env (non_null_values env series sample_size)"
    and "numeric_success_rate env (non_null_values env series sample_size) \<le> 9 / 10"
    and "date_success_rate env (non_null_values env series sample_size) \<le> 9 / 10"
    and "L = observed_max_length env (non_null_values env series sample_size)"
  shows "sql_type (infer_sql_type env series sample_size)
           = ''NVARCHAR('' @ str_nat (varchar_size L) @ '')''
         \<and> (L \<le> 50 \<longrightarrow> varchar_size L = 50)
         \<and> (50 < L \<and> L \<le> 100 \<longrightarrow> varchar_size L = 100)
         \<and> (100 < L \<and> L \<le> 255 \<longrightarrow> varchar_size L = 255)
         \<and> (255 < L \<and> L \<le> 500 \<longrightarrow> varchar_size L = 500)
         \<and> (500 < L \<longrightarrow> varchar_size L = max (5 * L div 4) 1000)
         \<and> varchar_size 600 = 1000"
proof -
  have "sql_type (infer_sql_type env series sample_size)
           = ''NVARCHAR('' @ str_nat (varchar_size L) @ '')''"
    using assms by (simp add: infer_sql_type_def infer_text_def Let_def)
  then show ?thesis
    by (simp add: varchar_size_def)
qed

lemma long_non_null: "non_null_values scenario_env long_text_column 1000 = s_values long_text_column"
  by (simp add: non_null_values_def sample_values_def long_text_column_def)

lemma long_not_boolean: "\<not> boolean_like scenario_env (s_values long_text_column)"
proof -
  have "length (py_lower (replicate 600 CHR ''x'')) = 600"
    by (simp add: py_lower_def)
  moreover have "\<forall>w \<in> set bool_values. length w \<le> 5"
    by (simp add: bool_values_def)
  ultimately have "py_lower (replicate 600 CHR ''x'') \<notin> set bool_values"
    by fastforce
  then show ?thesis
    by (simp add: boolean_like_def unique_lower_def long_text_column_def)
qed

lemma x_not_number: "scenario_to_numeric (PStr (replicate 600 CHR ''x'')) = NaN"
  by code_simp

lemma long_numeric_rate: "numeric_success_rate scenario_env (s_values long_text_column) = 0"
  using x_not_number by (simp add: numeric_success_rate_def scenario_env_def long_text_column_def)

lemma long_date_rate: "date_success_rate scenario_env (s_values long_text_column) = 0"
  by (simp add: date_success_rate_def scenario_env_def long_text_column_def)

lemma long_length: "observed_max_length scenario_env (s_values long_text_column) = 600"
  by (simp add: observed_max_length_def long_text_column_def)

lemma str_1000: "str_nat 1000 = ''1000''"
  by code_simp

theorem text_type_size_witness:
  "s_dtype long_text_column = ObjectDtype
   \<and> non_null_values scenario_env long_text_column 1000 \<noteq> []
   \<and> \<not> boolean_like scenario_env (non_null_values scenario_env long_text_column 1000)
   \<and> numeric_success_rate scenario_env (non_null_values scenario_env long_text_column 1000) \<le> 9 / 10
   \<and> date_success_rate scenario_env (non_null_values scenario_env long_text_column 1000) \<le> 9 / 10
   \<and> 500 < observed_max_length scenario_env (non_null_values scenario_env long_text_column 1000)
   \<and> sql_type (infer_sql_type scenario_env long_text_column 1000) = ''NVARCHAR(1000)''"
proof -
  have d: "s_dtype long_text_column = ObjectDtype" and n: "s_values long_text_column \<noteq> []"
    by (simp_all add: long_text_column_def)
  have "sql_type (infer_sql_type scenario_env long_text_column 1000)
          = ''NVARCHAR('' @ str_nat (varchar_size 600) @ '')''"
    using text_type_size [of long_text_column scenario_env 1000 600] d n
    by (simp add: long_non_null long_not_boolean long_numeric_rate long_date_rate long_length)
  then show ?thesis
    using d n
    by (simp add: long_non_null long_not_boolean long_numeric_rate long_date_rate long_length
        varchar_size_600 str_1000)
qed

text \<open>
  Claim C8, as stated, gives the size 750 for the observed length 600. The function
  returns \<open>NVARCHAR(1000)\<close>.
\<close>

theorem long_text_is_sized_1000_not_750:
  "observed_max_length scenario_env (non_null_values scenario_env long_text_column 1000) = 600
   \<and> sql_type (infer_sql_type scenario_env long_text_column 1000) = ''NVARCHAR(1000)''
   \<and> sql_type (infer_sql_type scenario_env long_text_column 1000) \<noteq> ''NVARCHAR(750)''"
proof -
  have d: "s_dtype long_text_column = ObjectDtype" and n: "s_values long_text_column \<noteq> []"
    by (simp_all add: long_text_column_def)
  have "sql_type (infer_sql_type scenario_env long_text_column 1000) = ''NVARCHAR(1000)''"
    using d n
    by (simp add: infer_sql_type_def infer_text_def Let_def long_non_null long_not_boolean
        long_numeric_rate long_date_rate long_length varchar_size_600 str_1000)
  then show ?thesis
    by (simp add: long_non_null long_length)
qed

section \<open>Properties of the materialization\<close>





text \<open>
  The same holds for every configuration on which the validation returns, valid or not:
  with a destination that answers every call, a frame that is not empty and whose labels
  are distinct, and column mappings for the sheet, the table is dropped, created and
  committed first, the verdict of the validation is logged, and the normalization and
  the bulk insert of all rows follow.
\<close>

lemma distinct_no_repeated_labels: "distinct (df_labels df) \<Longrightarrow> repeated_labels df = []"
proof -
  assume d: "distinct (df_labels df)"
  have "length (filter (\<lambda>k. k = l) (df_labels df)) \<le> 1" for l
  proof -
    have "length (filter (\<lambda>k. k = l) (df_labels df)) = card ({k. k = l} \<inter> set (df_labels df))"
      using d by (rule distinct_length_filter)
    also have "\<dots> \<le> card {l}"
      by (rule card_mono) auto
    finally show ?thesis by simp
  qed
  then have "\<not> 1 < length (filter (\<lambda>k. k = l) (df_labels df))" for l
    by (simp add: not_less)
  then show ?thesis
    by (simp add: repeated_labels_def)
qed

lemma distinct_create_sql: "distinct (df_labels df) \<Longrightarrow> \<not> create_sql_raises df m"
  by (simp add: create_sql_raises_def distinct_no_repeated_labels)

lemma check_duplicate_names_configs:
  "check_duplicate_names names m = Inr errors \<Longrightarrow> (c, config) \<in> set m
     \<Longrightarrow> \<not> custom_name_raises (Some config)"
proof (induction m arbitrary: names errors)
  case Nil
  then show ?case by simp
next
  case (Cons a m)
  obtain c' config' where a: "a = (c', config')" by (cases a)
  from Cons.prems(1) obtain sql_name errors' where
    head: "str_method py_lower (get_renamed_to c' config') = Inr sql_name"
    and tail: "check_duplicate_names (names @ [sql_name]) m = Inr errors'"
    by (auto simp: a split: sum.splits)
  show ?case
  proof (cases "(c, config) = (c', config')")
    case True
    with head show ?thesis
      by (cases "(c', config')" rule: get_renamed_to.cases) (auto simp: str_method_def)
  next
    case False
    with Cons.prems(2) a have "(c, config) \<in> set m" by auto
    with tail show ?thesis by (rule Cons.IH)
  qed
qed

lemma validated_insert_sql:
  assumes "validate_column_mappings df m = Inr verdict"
  shows "\<not> insert_sql_raises df m"
proof -
  from assms obtain errors where dup: "check_duplicate_names [] m = Inr errors"
    by (auto simp: validate_column_mappings_def split: sum.splits)
  have "\<not> custom_name_raises (map_of m l)" for l
  proof (cases "map_of m l")
    case None
    then show ?thesis by simp
  next
    case (Some config)
    then have "(l, config) \<in> set m" by (rule map_of_SomeD)
    with dup have "\<not> custom_name_raises (Some config)"
      by (rule check_duplicate_names_configs)
    with Some show ?thesis by simp
  qed
  then show ?thesis
    by (simp add: insert_sql_raises_def list_ex_iff)
qed

lemma verdict_does_not_gate:
  assumes "\<not> connect_raises db" and "\<not> drop_raises db" and "\<not> create_raises db"
    and "\<not> ddl_commit_raises db" and "\<not> executemany_raises db"
    and "\<not> final_commit_raises db" and "\<not> close_raises db"
    and "\<not> df_empty df" and "distinct (df_labels df)"
    and "mappings_for all_mappings source = m" and "m \<noteq> []"
    and "validate_column_mappings df m = Inr verdict"
  shows "save_trace (save_dataframe_to_destination env db all_mappings df t source)
           = [Connected, DropTable t, CreateTable t, Committed,
              validation_event verdict,
              Normalized (snd (normalize_dataframe_by_mappings env df (to_column_mappings m))),
              BulkInsert t (df_nrows df), Committed, Closed]
         \<and> save_success (save_dataframe_to_destination env db all_mappings df t source)"
proof -
  have c: "\<not> create_sql_raises df m"
    using assms(9) by (rule distinct_create_sql)
  have i: "\<not> insert_sql_raises df m"
    using assms(12) by (rule validated_insert_sql)
  from assms(8) have rows: "df_nrows df \<noteq> 0"
    by (simp add: df_empty_def)
  have load: "load_events env db df t m
      = ([validation_event verdict,
          Normalized (snd (normalize_dataframe_by_mappings env df (to_column_mappings m))),
          BulkInsert t (df_nrows df)],
         Inr (if rowcount db \<noteq> - 1 then rowcount db else int (df_nrows df)))"
    using assms(5,8,9,11,12) i rows
    by (simp add: load_events_def insert_rows_def)
  show ?thesis
    using assms(1-4,6,7,10) c
    by (simp add: save_dataframe_to_destination_def load Let_def)
qed

text \<open>
  A configuration on which the validation raises (the older format, or \<open>null\<close> under
  \<open>renamed_to\<close> or \<open>sql_type\<close>) ends the call in the outer \<open>except\<close>: the table has been
  dropped, created and committed, and no row is inserted.
\<close>

lemma raising_validation_after_ddl:
  assumes "\<not> connect_raises db" and "\<not> drop_raises db" and "\<not> create_raises db"
    and "\<not> ddl_commit_raises db"
    and "\<not> df_empty df" and "distinct (df_labels df)"
    and "mappings_for all_mappings source = m" and "m \<noteq> []"
    and "validate_column_mappings df m = Inl e"
  shows "save_dataframe_to_destination env db all_mappings df t source
           = save_failed ([Connected, DropTable t, CreateTable t, Committed] @ close_events db)"
proof -
  have c: "\<not> create_sql_raises df m"
    using assms(6) by (rule distinct_create_sql)
  have "\<exists>e'. load_events env db df t m = ([], Inl e')"
    using assms(5,8,9) by (simp add: load_events_def)
  then obtain e' where load: "load_events env db df t m = ([], Inl e')" ..
  show ?thesis
    using assms(1-4,7) c
    by (simp add: save_dataframe_to_destination_def load Let_def)
qed

lemma legacy_configuration_fails_after_ddl:
  "validate_column_mappings clientes_frame (mappings_for legacy_mappings ''clientes'')
     = Inl AttributeError
   \<and> save_dataframe_to_destination scenario_env reliable_db legacy_mappings
        clientes_frame ''Ventas_hoja1'' ''clientes''
     = \<lparr>save_success = False, records_inserted = 0,
        save_trace = [Connected, DropTable ''Ventas_hoja1'', CreateTable ''Ventas_hoja1'',
                      Committed, Closed]\<rparr>"
  by code_simp

section \<open>Properties of the process aggregator\<close>

lemma scenario_D_outcome:
  "process_excel_sheets_individually scenario_env scenario_D_workbook scenario_D_process
     = Inr \<lparr>success_general = True, hojas_exitosas = 2, hojas_fallidas = 1,
            total_hojas = 3, total_registros = 2\<rparr>"
  by code_simp

lemma outage_first_sheet:
  "process_sheet scenario_env log_outage_workbook scenario_D_process 1 ''Enero''
     = SheetProcessed ''Ventas_hoja1'' 1"
  by code_simp

lemma outage_outcome:
  "process_excel_sheets_individually scenario_env log_outage_workbook scenario_D_process
     = Inr \<lparr>success_general = False, hojas_exitosas = 0, hojas_fallidas = 3,
            total_hojas = 0, total_registros = 0\<rparr>"
  by code_simp

text \<open>
  Claim C5. The claim says that a fault in one sheet is recorded as the failure of that
  sheet without ending the run, and that the run succeeds exactly when a sheet
  succeeded. With a log store that accepts every write this is what happens: in
  scenario D the outcome is a success with two sheets processed and one failed. When
  the log store is down while the second sheet is processed, the start of its tracker
  raises, and so does \<open>finalizar_error\<close> in the \<open>except\<close> of the loop, which is not
  guarded: the loop ends, the third sheet is never processed, and the outcome is a
  failure with no sheet processed, although the first sheet was processed.
\<close>

theorem unguarded_handler_aborts_the_run:
  "process_excel_sheets_individually scenario_env scenario_D_workbook scenario_D_process
     = Inr \<lparr>success_general = True, hojas_exitosas = 2, hojas_fallidas = 1,
            total_hojas = 3, total_registros = 2\<rparr>
   \<and> process_sheet scenario_env log_outage_workbook scenario_D_process 1 ''Enero''
     = SheetProcessed ''Ventas_hoja1'' 1
   \<and> process_excel_sheets_individually scenario_env log_outage_workbook scenario_D_process
     = Inr \<lparr>success_general = False, hojas_exitosas = 0, hojas_fallidas = 3,
            total_hojas = 0, total_registros = 0\<rparr>"
  by (intro conjI scenario_D_outcome outage_first_sheet outage_outcome)

text \<open>
  With a log store that accepts every write, the loop records one outcome for every
  sheet, whether its body succeeded, failed or raised; the number of sheets processed
  is the number of sheets whose body reached the success branch; and the run succeeds
  exactly when that number is positive.
\<close>

lemma append_counts:
  "length (hojas_procesadas (append_processed st s t n)) = Suc (length (hojas_procesadas st))"
  "length (hojas_con_error (append_processed st s t n)) = length (hojas_con_error st)"
  "length (hojas_procesadas (append_error st s out)) = length (hojas_procesadas st)"
  "length (hojas_con_error (append_error st s out)) = Suc (length (hojas_con_error st))"
  by (simp_all add: append_processed_def append_error_def)

lemma process_sheets_counts:
  assumes "\<forall>i. \<not> log_raises xl (HandlerError i)"
  shows "\<exists>final. process_sheets env xl p k sheets st = Inr final
     \<and> length (hojas_procesadas final) + length (hojas_con_error final)
         = length (hojas_procesadas st) + length (hojas_con_error st) + length sheets
     \<and> length (hojas_procesadas final)
         = length (hojas_procesadas st)
           + length (filter (\<lambda>(i, name). sheet_succeeded (process_sheet env xl p (i + 1) name))
                       (enumerate k sheets))"
proof (induction sheets arbitrary: k st)
  case Nil
  then show ?case by simp
next
  case (Cons name rest)
  define out where "out = process_sheet env xl p (Suc k) name"
  define st' where "st' = (case out of
      SheetProcessed table_name registros \<Rightarrow> append_processed st name table_name registros
    | SheetFailed table_name \<Rightarrow> append_error st name (SheetFailed table_name)
    | SheetRaised e \<Rightarrow> append_error st name (SheetRaised e))"
  define tail_ok where "tail_ok =
    length (filter (\<lambda>(i, name). sheet_succeeded (process_sheet env xl p (i + 1) name))
              (enumerate (Suc k) rest))"
  have unfold: "process_sheets env xl p k (name # rest) st = process_sheets env xl p (k + 1) rest st'"
  proof (cases out)
    case (SheetProcessed table_name registros)
    then have "process_sheet env xl p (Suc k) name = SheetProcessed table_name registros"
      by (simp add: out_def)
    then show ?thesis by (simp add: st'_def SheetProcessed)
  next
    case (SheetFailed table_name)
    then have "process_sheet env xl p (Suc k) name = SheetFailed table_name"
      by (simp add: out_def)
    then show ?thesis by (simp add: st'_def SheetFailed)
  next
    case (SheetRaised e)
    then have "process_sheet env xl p (Suc k) name = SheetRaised e"
      by (simp add: out_def)
    then show ?thesis using assms by (simp add: st'_def SheetRaised)
  qed
  from Cons.IH [of "k + 1" st'] obtain final where
    final: "process_sheets env xl p (k + 1) rest st' = Inr final"
    and ih: "length (hojas_procesadas final) + length (hojas_con_error final)
              = length (hojas_procesadas st') + length (hojas_con_error st') + length rest"
      "length (hojas_procesadas final) = length (hojas_procesadas st') + tail_ok"
    by (auto simp: tail_ok_def)
  have step: "length (hojas_procesadas st') + length (hojas_con_error st')
                = Suc (length (hojas_procesadas st) + length (hojas_con_error st))"
    "length (hojas_procesadas st')
       = length (hojas_procesadas st) + (if sheet_succeeded out then 1 else 0)"
    by (cases out; simp add: st'_def append_counts)+
  have filt: "length (filter (\<lambda>(i, name). sheet_succeeded (process_sheet env xl p (i + 1) name))
                        (enumerate k (name # rest)))
                = (if sheet_succeeded out then 1 else 0) + tail_ok"
    by (simp add: out_def tail_ok_def)
  show ?case
    unfolding unfold filt using final ih step by simp
qed

lemma isolation_with_working_log:
  assumes "\<forall>call. \<not> log_raises xl call" and "\<not> excel_file_raises xl"
    and "selected_sheets p \<noteq> []"
  shows "\<exists>r. process_excel_sheets_individually env xl p = Inr r
     \<and> (success_general r \<longleftrightarrow> hojas_exitosas r > 0)
     \<and> hojas_exitosas r + hojas_fallidas r = length (selected_sheets p)
     \<and> hojas_exitosas r
         = length (filter (\<lambda>(i, name). sheet_succeeded (process_sheet env xl p (i + 1) name))
                     (enumerate 0 (selected_sheets p)))"
proof -
  from assms(1) have h: "\<forall>i. \<not> log_raises xl (HandlerError i)" by simp
  from process_sheets_counts [OF h, of env p 0 "selected_sheets p"
      "\<lparr>hojas_procesadas = [], hojas_con_error = [], total_registros_procesados = 0\<rparr>"]
  obtain final where
    final: "process_sheets env xl p 0 (selected_sheets p)
        \<lparr>hojas_procesadas = [], hojas_con_error = [], total_registros_procesados = 0\<rparr> = Inr final"
    and counts: "length (hojas_procesadas final) + length (hojas_con_error final)
        = length (selected_sheets p)"
      "length (hojas_procesadas final)
         = length (filter (\<lambda>(i, name). sheet_succeeded (process_sheet env xl p (i + 1) name))
                     (enumerate 0 (selected_sheets p)))"
    by auto
  have "try_process_sheets env xl p
      = Inr \<lparr>success_general = (length (hojas_procesadas final) > 0),
             hojas_exitosas = length (hojas_procesadas final),
             hojas_fallidas = length (hojas_con_error final),
             total_hojas = length (selected_sheets p),
             total_registros = total_registros_procesados final\<rparr>"
    using assms final by (simp add: try_process_sheets_def)
  then show ?thesis
    using counts by (simp add: process_excel_sheets_individually_def)
qed

end
